theory Spec2Isabelle
  imports Main
begin

section \<open>Values that cross a dispatch stub\<close>

text \<open>
  The generated server stubs all have the shape
  \<^verbatim>\<open>func XServerHandle(ctx context.Context, o XServer, opNum int, r ndr.Reader) (dcerpc.Operation, error)\<close>.
  Both results are Go interface values, which are either \<^verbatim>\<open>nil\<close> or hold something:
  \<open>None\<close> is \<^verbatim>\<open>nil\<close>. The operation number is a Go \<^verbatim>\<open>int\<close>; it is only
  compared with constants, so it is an \<open>int\<close> here.
\<close>

type_synonym 'e error = "'e option"

type_synonym 'op Operation = "'op option"

type_synonym ('op, 'e) result = "'op Operation \<times> 'e error"

text \<open>
  A method of a server interface is named by its Go identifier. In every case of every
  stub the request type is the method's name followed by \<^verbatim>\<open>Request\<close>
  (\<^verbatim>\<open>in := &InitiateShutdownRequest{}\<close> goes with \<^verbatim>\<open>o.InitiateShutdown(ctx, in)\<close>),
  so the name identifies the request type, the handler method and the response type.
\<close>

type_synonym method_name = string

text \<open>
  What a stub does besides returning: it reads from \<^verbatim>\<open>r\<close> through
  \<^verbatim>\<open>UnmarshalNDR\<close> and it calls one method of \<^verbatim>\<open>o\<close>. The state is passed
  explicitly. \<open>reader\<close> is the state behind the argument \<^verbatim>\<open>r\<close>, \<open>server_state\<close> is
  whatever the implementation \<^verbatim>\<open>o\<close> keeps, and \<open>events\<close> logs each call the stub
  makes, in order, so that "called once" and "not called" can be stated. The record is
  extensible: its \<open>more\<close> part stands for all other state of the process.
\<close>

datatype 'req event = Unmarshal method_name | Handler method_name 'req

record ('rd, 'st, 'req) world =
  reader :: 'rd
  server_state :: 'st
  events :: "'req event list"

text \<open>
  The request and response structures, their \<^verbatim>\<open>UnmarshalNDR\<close> methods and the
  \<^verbatim>\<open>xxx_ToOp\<close> conversions are declared in other files of each package and are
  taken as parameters. \<^verbatim>\<open>in.UnmarshalNDR(ctx, r)\<close> on a fresh request yields an
  error value, the filled request and the reader's new state.
  \<^verbatim>\<open>resp.xxx_ToOp(ctx)\<close> takes the response pointer as the handler returned it
  (\<open>'resp\<close> includes the \<^verbatim>\<open>nil\<close> pointer) and yields the value that is returned as
  \<^verbatim>\<open>dcerpc.Operation\<close>.
\<close>

record ('ctx, 'rd, 'req, 'resp, 'op, 'e) codec =
  UnmarshalNDR :: "method_name \<Rightarrow> 'ctx \<Rightarrow> 'rd \<Rightarrow> 'e error \<times> 'req \<times> 'rd"
  xxx_ToOp :: "method_name \<Rightarrow> 'ctx \<Rightarrow> 'resp \<Rightarrow> 'op Operation"

text \<open>
  The user's implementation \<^verbatim>\<open>o\<close> of a server interface: each method takes the
  context and the request and returns \<^verbatim>\<open>(*Response, error)\<close>, possibly changing
  the implementation's own state.
\<close>

type_synonym ('ctx, 'req, 'resp, 'e, 'st) server =
  "method_name \<Rightarrow> 'ctx \<Rightarrow> 'req \<Rightarrow> 'st \<Rightarrow> ('resp \<times> 'e error) \<times> 'st"

text \<open>\<^verbatim>\<open>dcerpc.ServerHandle\<close>, the type of the closures that are registered.\<close>

type_synonym ('ctx, 'rd, 'st, 'req, 'op, 'e, 'z) ServerHandle =
  "'ctx \<Rightarrow> int \<Rightarrow> ('rd, 'st, 'req, 'z) world_scheme \<Rightarrow>
     ('op, 'e) result \<times> ('rd, 'st, 'req, 'z) world_scheme"

text \<open>The type of the stubs \<^verbatim>\<open>XServerHandle\<close>, after the codec parameter.\<close>

type_synonym ('ctx, 'rd, 'st, 'req, 'resp, 'op, 'e, 'z) handle =
  "('ctx, 'rd, 'req, 'resp, 'op, 'e) codec \<Rightarrow> 'ctx \<Rightarrow> ('ctx, 'req, 'resp, 'e, 'st) server \<Rightarrow>
     int \<Rightarrow> ('rd, 'st, 'req, 'z) world_scheme \<Rightarrow>
     ('op, 'e) result \<times> ('rd, 'st, 'req, 'z) world_scheme"

text \<open>
  The stub of a base interface (\<^verbatim>\<open>iunknown.UnknownServerHandle\<close>,
  \<^verbatim>\<open>ifsrmfilescreenbase.FileScreenBaseServerHandle\<close>,
  \<^verbatim>\<open>idatafactory2.DataFactory2ServerHandle\<close>) lives in another package and is
  taken as a parameter: a derived stub passes it \<^verbatim>\<open>(ctx, o, opNum, r)\<close>.
\<close>

type_synonym ('ctx, 'rd, 'st, 'req, 'resp, 'op, 'e, 'z) base_handle =
  "'ctx \<Rightarrow> ('ctx, 'req, 'resp, 'e, 'st) server \<Rightarrow>
     int \<Rightarrow> ('rd, 'st, 'req, 'z) world_scheme \<Rightarrow>
     ('op, 'e) result \<times> ('rd, 'st, 'req, 'z) world_scheme"

text \<open>
  \<^verbatim>\<open>dcerpc.Conn.RegisterServer\<close> and \<^verbatim>\<open>dcerpc.WithAbstractSyntax\<close> belong to the
  transport package; the syntax identifiers (\<^verbatim>\<open>WindowsShutdownSyntaxV1_0\<close>, ...) are
  package constants declared beside the stubs. All are parameters.
\<close>

record ('conn, 'h, 'opt, 'syn) dcerpc =
  RegisterServer :: "'conn \<Rightarrow> 'h \<Rightarrow> 'opt list \<Rightarrow> 'conn"
  WithAbstractSyntax :: "'syn \<Rightarrow> 'opt"

section \<open>The body of a case\<close>

text \<open>
  Every case of every switch that serves a method is the same four statements:
  \<^verbatim>\<open>
  in := &MRequest{}
  if err := in.UnmarshalNDR(ctx, r); err != nil {
          return nil, err
  }
  resp, err := o.M(ctx, in)
  return resp.xxx_ToOp(ctx), err
  \<close>
\<close>

definition decode_and_call ::
  "('ctx, 'rd, 'req, 'resp, 'op, 'e) codec \<Rightarrow> 'ctx \<Rightarrow> ('ctx, 'req, 'resp, 'e, 'st) server \<Rightarrow>
     method_name \<Rightarrow> ('rd, 'st, 'req, 'z) world_scheme \<Rightarrow>
     ('op, 'e) result \<times> ('rd, 'st, 'req, 'z) world_scheme" where
  "decode_and_call cdc ctx srv m w =
     (case UnmarshalNDR cdc m ctx (reader w) of
        (err, req, r') \<Rightarrow>
          let w1 = w\<lparr>reader := r', events := events w @ [Unmarshal m]\<rparr> in
          (case err of
             Some e \<Rightarrow> ((None, Some e), w1)
           | None \<Rightarrow>
               (case srv m ctx req (server_state w1) of
                  ((resp, err'), s') \<Rightarrow>
                    ((xxx_ToOp cdc m ctx resp, err'),
                     w1\<lparr>server_state := s', events := events w1 @ [Handler m req]\<rparr>))))"

section \<open>The stubs\<close>

subsection \<open>Package \<^verbatim>\<open>windowsshutdown\<close>\<close>

definition WindowsShutdownServerHandle ::
  "('ctx, 'rd, 'st, 'req, 'resp, 'op, 'e, 'z) handle" where
  "WindowsShutdownServerHandle cdc ctx srv opNum w =
     (if opNum = 0 then decode_and_call cdc ctx srv ''InitiateShutdown'' w
      else if opNum = 1 then decode_and_call cdc ctx srv ''AbortShutdown'' w
      else ((None, None), w))"

definition NewWindowsShutdownServerHandle ::
  "('ctx, 'rd, 'req, 'resp, 'op, 'e) codec \<Rightarrow> ('ctx, 'req, 'resp, 'e, 'st) server \<Rightarrow>
     ('ctx, 'rd, 'st, 'req, 'op, 'e, 'z) ServerHandle" where
  "NewWindowsShutdownServerHandle cdc srv =
     (\<lambda>ctx opNum w. WindowsShutdownServerHandle cdc ctx srv opNum w)"

definition RegisterWindowsShutdownServer ::
  "('conn, ('ctx, 'rd, 'st, 'req, 'op, 'e, 'z) ServerHandle, 'opt, 'syn) dcerpc \<Rightarrow> 'syn \<Rightarrow>
     ('ctx, 'rd, 'req, 'resp, 'op, 'e) codec \<Rightarrow> 'conn \<Rightarrow> ('ctx, 'req, 'resp, 'e, 'st) server \<Rightarrow>
     'opt list \<Rightarrow> 'conn" where
  "RegisterWindowsShutdownServer rpc WindowsShutdownSyntaxV1_0 cdc conn srv opts =
     RegisterServer rpc conn (NewWindowsShutdownServerHandle cdc srv)
       (opts @ [WithAbstractSyntax rpc WindowsShutdownSyntaxV1_0])"

subsection \<open>Package \<^verbatim>\<open>ivdsservicesan\<close>\<close>

definition ServiceSANServerHandle ::
  "('ctx, 'rd, 'st, 'req, 'resp, 'op, 'e, 'z) base_handle \<Rightarrow>
     ('ctx, 'rd, 'st, 'req, 'resp, 'op, 'e, 'z) handle" where
  "ServiceSANServerHandle UnknownServerHandle cdc ctx srv opNum w =
     (if opNum < 3 then UnknownServerHandle ctx srv opNum w
      else if opNum = 3 then decode_and_call cdc ctx srv ''GetSANPolicy'' w
      else if opNum = 4 then decode_and_call cdc ctx srv ''SetSANPolicy'' w
      else ((None, None), w))"

definition NewServiceSANServerHandle ::
  "('ctx, 'rd, 'st, 'req, 'resp, 'op, 'e, 'z) base_handle \<Rightarrow>
     ('ctx, 'rd, 'req, 'resp, 'op, 'e) codec \<Rightarrow> ('ctx, 'req, 'resp, 'e, 'st) server \<Rightarrow>
     ('ctx, 'rd, 'st, 'req, 'op, 'e, 'z) ServerHandle" where
  "NewServiceSANServerHandle UnknownServerHandle cdc srv =
     (\<lambda>ctx opNum w. ServiceSANServerHandle UnknownServerHandle cdc ctx srv opNum w)"

definition RegisterServiceSANServer ::
  "('conn, ('ctx, 'rd, 'st, 'req, 'op, 'e, 'z) ServerHandle, 'opt, 'syn) dcerpc \<Rightarrow> 'syn \<Rightarrow>
     ('ctx, 'rd, 'st, 'req, 'resp, 'op, 'e, 'z) base_handle \<Rightarrow>
     ('ctx, 'rd, 'req, 'resp, 'op, 'e) codec \<Rightarrow> 'conn \<Rightarrow> ('ctx, 'req, 'resp, 'e, 'st) server \<Rightarrow>
     'opt list \<Rightarrow> 'conn" where
  "RegisterServiceSANServer rpc ServiceSANSyntaxV0_0 UnknownServerHandle cdc conn srv opts =
     RegisterServer rpc conn (NewServiceSANServerHandle UnknownServerHandle cdc srv)
       (opts @ [WithAbstractSyntax rpc ServiceSANSyntaxV0_0])"

subsection \<open>Package \<^verbatim>\<open>iapphostpropertycollection\<close>\<close>

definition AppHostPropertyCollectionServerHandle ::
  "('ctx, 'rd, 'st, 'req, 'resp, 'op, 'e, 'z) base_handle \<Rightarrow>
     ('ctx, 'rd, 'st, 'req, 'resp, 'op, 'e, 'z) handle" where
  "AppHostPropertyCollectionServerHandle UnknownServerHandle cdc ctx srv opNum w =
     (if opNum < 3 then UnknownServerHandle ctx srv opNum w
      else if opNum = 3 then decode_and_call cdc ctx srv ''GetCount'' w
      else if opNum = 4 then decode_and_call cdc ctx srv ''GetItem'' w
      else ((None, None), w))"

definition NewAppHostPropertyCollectionServerHandle ::
  "('ctx, 'rd, 'st, 'req, 'resp, 'op, 'e, 'z) base_handle \<Rightarrow>
     ('ctx, 'rd, 'req, 'resp, 'op, 'e) codec \<Rightarrow> ('ctx, 'req, 'resp, 'e, 'st) server \<Rightarrow>
     ('ctx, 'rd, 'st, 'req, 'op, 'e, 'z) ServerHandle" where
  "NewAppHostPropertyCollectionServerHandle UnknownServerHandle cdc srv =
     (\<lambda>ctx opNum w. AppHostPropertyCollectionServerHandle UnknownServerHandle cdc ctx srv opNum w)"

definition RegisterAppHostPropertyCollectionServer ::
  "('conn, ('ctx, 'rd, 'st, 'req, 'op, 'e, 'z) ServerHandle, 'opt, 'syn) dcerpc \<Rightarrow> 'syn \<Rightarrow>
     ('ctx, 'rd, 'st, 'req, 'resp, 'op, 'e, 'z) base_handle \<Rightarrow>
     ('ctx, 'rd, 'req, 'resp, 'op, 'e) codec \<Rightarrow> 'conn \<Rightarrow> ('ctx, 'req, 'resp, 'e, 'st) server \<Rightarrow>
     'opt list \<Rightarrow> 'conn" where
  "RegisterAppHostPropertyCollectionServer rpc AppHostPropertyCollectionSyntaxV0_0 UnknownServerHandle cdc conn srv opts =
     RegisterServer rpc conn (NewAppHostPropertyCollectionServerHandle UnknownServerHandle cdc srv)
       (opts @ [WithAbstractSyntax rpc AppHostPropertyCollectionSyntaxV0_0])"

subsection \<open>Package \<^verbatim>\<open>iapphostpathmapper\<close>\<close>

definition AppHostPathMapperServerHandle ::
  "('ctx, 'rd, 'st, 'req, 'resp, 'op, 'e, 'z) base_handle \<Rightarrow>
     ('ctx, 'rd, 'st, 'req, 'resp, 'op, 'e, 'z) handle" where
  "AppHostPathMapperServerHandle UnknownServerHandle cdc ctx srv opNum w =
     (if opNum < 3 then UnknownServerHandle ctx srv opNum w
      else if opNum = 3 then decode_and_call cdc ctx srv ''MapPath'' w
      else ((None, None), w))"

definition NewAppHostPathMapperServerHandle ::
  "('ctx, 'rd, 'st, 'req, 'resp, 'op, 'e, 'z) base_handle \<Rightarrow>
     ('ctx, 'rd, 'req, 'resp, 'op, 'e) codec \<Rightarrow> ('ctx, 'req, 'resp, 'e, 'st) server \<Rightarrow>
     ('ctx, 'rd, 'st, 'req, 'op, 'e, 'z) ServerHandle" where
  "NewAppHostPathMapperServerHandle UnknownServerHandle cdc srv =
     (\<lambda>ctx opNum w. AppHostPathMapperServerHandle UnknownServerHandle cdc ctx srv opNum w)"

definition RegisterAppHostPathMapperServer ::
  "('conn, ('ctx, 'rd, 'st, 'req, 'op, 'e, 'z) ServerHandle, 'opt, 'syn) dcerpc \<Rightarrow> 'syn \<Rightarrow>
     ('ctx, 'rd, 'st, 'req, 'resp, 'op, 'e, 'z) base_handle \<Rightarrow>
     ('ctx, 'rd, 'req, 'resp, 'op, 'e) codec \<Rightarrow> 'conn \<Rightarrow> ('ctx, 'req, 'resp, 'e, 'st) server \<Rightarrow>
     'opt list \<Rightarrow> 'conn" where
  "RegisterAppHostPathMapperServer rpc AppHostPathMapperSyntaxV0_0 UnknownServerHandle cdc conn srv opts =
     RegisterServer rpc conn (NewAppHostPathMapperServerHandle UnknownServerHandle cdc srv)
       (opts @ [WithAbstractSyntax rpc AppHostPathMapperSyntaxV0_0])"

subsection \<open>Package \<^verbatim>\<open>iapphostelementcollection\<close>\<close>

definition AppHostElementCollectionServerHandle ::
  "('ctx, 'rd, 'st, 'req, 'resp, 'op, 'e, 'z) base_handle \<Rightarrow>
     ('ctx, 'rd, 'st, 'req, 'resp, 'op, 'e, 'z) handle" where
  "AppHostElementCollectionServerHandle UnknownServerHandle cdc ctx srv opNum w =
     (if opNum < 3 then UnknownServerHandle ctx srv opNum w
      else if opNum = 3 then decode_and_call cdc ctx srv ''GetCount'' w
      else if opNum = 4 then decode_and_call cdc ctx srv ''GetItem'' w
      else if opNum = 5 then decode_and_call cdc ctx srv ''AddElement'' w
      else if opNum = 6 then decode_and_call cdc ctx srv ''DeleteElement'' w
      else if opNum = 7 then decode_and_call cdc ctx srv ''Clear'' w
      else if opNum = 8 then decode_and_call cdc ctx srv ''CreateNewElement'' w
      else if opNum = 9 then decode_and_call cdc ctx srv ''GetSchema'' w
      else ((None, None), w))"

definition NewAppHostElementCollectionServerHandle ::
  "('ctx, 'rd, 'st, 'req, 'resp, 'op, 'e, 'z) base_handle \<Rightarrow>
     ('ctx, 'rd, 'req, 'resp, 'op, 'e) codec \<Rightarrow> ('ctx, 'req, 'resp, 'e, 'st) server \<Rightarrow>
     ('ctx, 'rd, 'st, 'req, 'op, 'e, 'z) ServerHandle" where
  "NewAppHostElementCollectionServerHandle UnknownServerHandle cdc srv =
     (\<lambda>ctx opNum w. AppHostElementCollectionServerHandle UnknownServerHandle cdc ctx srv opNum w)"

definition RegisterAppHostElementCollectionServer ::
  "('conn, ('ctx, 'rd, 'st, 'req, 'op, 'e, 'z) ServerHandle, 'opt, 'syn) dcerpc \<Rightarrow> 'syn \<Rightarrow>
     ('ctx, 'rd, 'st, 'req, 'resp, 'op, 'e, 'z) base_handle \<Rightarrow>
     ('ctx, 'rd, 'req, 'resp, 'op, 'e) codec \<Rightarrow> 'conn \<Rightarrow> ('ctx, 'req, 'resp, 'e, 'st) server \<Rightarrow>
     'opt list \<Rightarrow> 'conn" where
  "RegisterAppHostElementCollectionServer rpc AppHostElementCollectionSyntaxV0_0 UnknownServerHandle cdc conn srv opts =
     RegisterServer rpc conn (NewAppHostElementCollectionServerHandle UnknownServerHandle cdc srv)
       (opts @ [WithAbstractSyntax rpc AppHostElementCollectionSyntaxV0_0])"

subsection \<open>Package \<^verbatim>\<open>iwamadmin\<close>\<close>

definition WAMAdminServerHandle ::
  "('ctx, 'rd, 'st, 'req, 'resp, 'op, 'e, 'z) base_handle \<Rightarrow>
     ('ctx, 'rd, 'st, 'req, 'resp, 'op, 'e, 'z) handle" where
  "WAMAdminServerHandle UnknownServerHandle cdc ctx srv opNum w =
     (if opNum < 3 then UnknownServerHandle ctx srv opNum w
      else if opNum = 3 then decode_and_call cdc ctx srv ''AppCreate'' w
      else if opNum = 4 then decode_and_call cdc ctx srv ''AppDelete'' w
      else if opNum = 5 then decode_and_call cdc ctx srv ''AppUnload'' w
      else if opNum = 6 then decode_and_call cdc ctx srv ''AppGetStatus'' w
      else if opNum = 7 then decode_and_call cdc ctx srv ''AppDeleteRecoverable'' w
      else if opNum = 8 then decode_and_call cdc ctx srv ''AppRecover'' w
      else ((None, None), w))"

definition NewWAMAdminServerHandle ::
  "('ctx, 'rd, 'st, 'req, 'resp, 'op, 'e, 'z) base_handle \<Rightarrow>
     ('ctx, 'rd, 'req, 'resp, 'op, 'e) codec \<Rightarrow> ('ctx, 'req, 'resp, 'e, 'st) server \<Rightarrow>
     ('ctx, 'rd, 'st, 'req, 'op, 'e, 'z) ServerHandle" where
  "NewWAMAdminServerHandle UnknownServerHandle cdc srv =
     (\<lambda>ctx opNum w. WAMAdminServerHandle UnknownServerHandle cdc ctx srv opNum w)"

definition RegisterWAMAdminServer ::
  "('conn, ('ctx, 'rd, 'st, 'req, 'op, 'e, 'z) ServerHandle, 'opt, 'syn) dcerpc \<Rightarrow> 'syn \<Rightarrow>
     ('ctx, 'rd, 'st, 'req, 'resp, 'op, 'e, 'z) base_handle \<Rightarrow>
     ('ctx, 'rd, 'req, 'resp, 'op, 'e) codec \<Rightarrow> 'conn \<Rightarrow> ('ctx, 'req, 'resp, 'e, 'st) server \<Rightarrow>
     'opt list \<Rightarrow> 'conn" where
  "RegisterWAMAdminServer rpc WAMAdminSyntaxV0_0 UnknownServerHandle cdc conn srv opts =
     RegisterServer rpc conn (NewWAMAdminServerHandle UnknownServerHandle cdc srv)
       (opts @ [WithAbstractSyntax rpc WAMAdminSyntaxV0_0])"

subsection \<open>Package \<^verbatim>\<open>idatafactory3\<close>\<close>

definition DataFactory3ServerHandle ::
  "('ctx, 'rd, 'st, 'req, 'resp, 'op, 'e, 'z) base_handle \<Rightarrow>
     ('ctx, 'rd, 'st, 'req, 'resp, 'op, 'e, 'z) handle" where
  "DataFactory3ServerHandle DataFactory2ServerHandle cdc ctx srv opNum w =
     (if opNum < 9 then DataFactory2ServerHandle ctx srv opNum w
      else if opNum = 9 then decode_and_call cdc ctx srv ''Execute'' w
      else if opNum = 10 then decode_and_call cdc ctx srv ''Synchronize'' w
      else ((None, None), w))"

definition NewDataFactory3ServerHandle ::
  "('ctx, 'rd, 'st, 'req, 'resp, 'op, 'e, 'z) base_handle \<Rightarrow>
     ('ctx, 'rd, 'req, 'resp, 'op, 'e) codec \<Rightarrow> ('ctx, 'req, 'resp, 'e, 'st) server \<Rightarrow>
     ('ctx, 'rd, 'st, 'req, 'op, 'e, 'z) ServerHandle" where
  "NewDataFactory3ServerHandle DataFactory2ServerHandle cdc srv =
     (\<lambda>ctx opNum w. DataFactory3ServerHandle DataFactory2ServerHandle cdc ctx srv opNum w)"

definition RegisterDataFactory3Server ::
  "('conn, ('ctx, 'rd, 'st, 'req, 'op, 'e, 'z) ServerHandle, 'opt, 'syn) dcerpc \<Rightarrow> 'syn \<Rightarrow>
     ('ctx, 'rd, 'st, 'req, 'resp, 'op, 'e, 'z) base_handle \<Rightarrow>
     ('ctx, 'rd, 'req, 'resp, 'op, 'e) codec \<Rightarrow> 'conn \<Rightarrow> ('ctx, 'req, 'resp, 'e, 'st) server \<Rightarrow>
     'opt list \<Rightarrow> 'conn" where
  "RegisterDataFactory3Server rpc DataFactory3SyntaxV0_0 DataFactory2ServerHandle cdc conn srv opts =
     RegisterServer rpc conn (NewDataFactory3ServerHandle DataFactory2ServerHandle cdc srv)
       (opts @ [WithAbstractSyntax rpc DataFactory3SyntaxV0_0])"

subsection \<open>Package \<^verbatim>\<open>ifsrmfilescreentemplate\<close>\<close>

definition FileScreenTemplateServerHandle ::
  "('ctx, 'rd, 'st, 'req, 'resp, 'op, 'e, 'z) base_handle \<Rightarrow>
     ('ctx, 'rd, 'st, 'req, 'resp, 'op, 'e, 'z) handle" where
  "FileScreenTemplateServerHandle FileScreenBaseServerHandle cdc ctx srv opNum w =
     (if opNum < 18 then FileScreenBaseServerHandle ctx srv opNum w
      else if opNum = 18 then decode_and_call cdc ctx srv ''GetName'' w
      else if opNum = 19 then decode_and_call cdc ctx srv ''SetName'' w
      else if opNum = 20 then decode_and_call cdc ctx srv ''CopyTemplate'' w
      else if opNum = 21 then decode_and_call cdc ctx srv ''CommitAndUpdateDerived'' w
      else ((None, None), w))"

definition NewFileScreenTemplateServerHandle ::
  "('ctx, 'rd, 'st, 'req, 'resp, 'op, 'e, 'z) base_handle \<Rightarrow>
     ('ctx, 'rd, 'req, 'resp, 'op, 'e) codec \<Rightarrow> ('ctx, 'req, 'resp, 'e, 'st) server \<Rightarrow>
     ('ctx, 'rd, 'st, 'req, 'op, 'e, 'z) ServerHandle" where
  "NewFileScreenTemplateServerHandle FileScreenBaseServerHandle cdc srv =
     (\<lambda>ctx opNum w. FileScreenTemplateServerHandle FileScreenBaseServerHandle cdc ctx srv opNum w)"

definition RegisterFileScreenTemplateServer ::
  "('conn, ('ctx, 'rd, 'st, 'req, 'op, 'e, 'z) ServerHandle, 'opt, 'syn) dcerpc \<Rightarrow> 'syn \<Rightarrow>
     ('ctx, 'rd, 'st, 'req, 'resp, 'op, 'e, 'z) base_handle \<Rightarrow>
     ('ctx, 'rd, 'req, 'resp, 'op, 'e) codec \<Rightarrow> 'conn \<Rightarrow> ('ctx, 'req, 'resp, 'e, 'st) server \<Rightarrow>
     'opt list \<Rightarrow> 'conn" where
  "RegisterFileScreenTemplateServer rpc FileScreenTemplateSyntaxV0_0 FileScreenBaseServerHandle cdc conn srv opts =
     RegisterServer rpc conn (NewFileScreenTemplateServerHandle FileScreenBaseServerHandle cdc srv)
       (opts @ [WithAbstractSyntax rpc FileScreenTemplateSyntaxV0_0])"

subsection \<open>Package \<^verbatim>\<open>ivdsvdprovider\<close>\<close>

definition VDiskProviderServerHandle ::
  "('ctx, 'rd, 'st, 'req, 'resp, 'op, 'e, 'z) base_handle \<Rightarrow>
     ('ctx, 'rd, 'st, 'req, 'resp, 'op, 'e, 'z) handle" where
  "VDiskProviderServerHandle UnknownServerHandle cdc ctx srv opNum w =
     (if opNum < 3 then UnknownServerHandle ctx srv opNum w
      else if opNum = 3 then decode_and_call cdc ctx srv ''QueryVDisks'' w
      else if opNum = 4 then decode_and_call cdc ctx srv ''CreateVDisk'' w
      else if opNum = 5 then decode_and_call cdc ctx srv ''AddVDisk'' w
      else if opNum = 6 then decode_and_call cdc ctx srv ''GetDiskFromVDisk'' w
      else if opNum = 7 then decode_and_call cdc ctx srv ''GetVDiskFromDisk'' w
      else ((None, None), w))"

definition NewVDiskProviderServerHandle ::
  "('ctx, 'rd, 'st, 'req, 'resp, 'op, 'e, 'z) base_handle \<Rightarrow>
     ('ctx, 'rd, 'req, 'resp, 'op, 'e) codec \<Rightarrow> ('ctx, 'req, 'resp, 'e, 'st) server \<Rightarrow>
     ('ctx, 'rd, 'st, 'req, 'op, 'e, 'z) ServerHandle" where
  "NewVDiskProviderServerHandle UnknownServerHandle cdc srv =
     (\<lambda>ctx opNum w. VDiskProviderServerHandle UnknownServerHandle cdc ctx srv opNum w)"

definition RegisterVDiskProviderServer ::
  "('conn, ('ctx, 'rd, 'st, 'req, 'op, 'e, 'z) ServerHandle, 'opt, 'syn) dcerpc \<Rightarrow> 'syn \<Rightarrow>
     ('ctx, 'rd, 'st, 'req, 'resp, 'op, 'e, 'z) base_handle \<Rightarrow>
     ('ctx, 'rd, 'req, 'resp, 'op, 'e) codec \<Rightarrow> 'conn \<Rightarrow> ('ctx, 'req, 'resp, 'e, 'st) server \<Rightarrow>
     'opt list \<Rightarrow> 'conn" where
  "RegisterVDiskProviderServer rpc VDiskProviderSyntaxV0_0 UnknownServerHandle cdc conn srv opts =
     RegisterServer rpc conn (NewVDiskProviderServerHandle UnknownServerHandle cdc srv)
       (opts @ [WithAbstractSyntax rpc VDiskProviderSyntaxV0_0])"

subsection \<open>Package \<^verbatim>\<open>icatalogutils2\<close>\<close>

definition CatalogUtils2ServerHandle ::
  "('ctx, 'rd, 'st, 'req, 'resp, 'op, 'e, 'z) base_handle \<Rightarrow>
     ('ctx, 'rd, 'st, 'req, 'resp, 'op, 'e, 'z) handle" where
  "CatalogUtils2ServerHandle UnknownServerHandle cdc ctx srv opNum w =
     (if opNum < 3 then UnknownServerHandle ctx srv opNum w
      else if opNum = 3 then decode_and_call cdc ctx srv ''CopyConglomerations'' w
      else if opNum = 4 then decode_and_call cdc ctx srv ''CopyComponentConfiguration'' w
      else if opNum = 5 then decode_and_call cdc ctx srv ''AliasComponent'' w
      else if opNum = 6 then decode_and_call cdc ctx srv ''MoveComponentConfiguration'' w
      else if opNum = 7 then decode_and_call cdc ctx srv ''GetEventClassesForIid2'' w
      else if opNum = 8 then decode_and_call cdc ctx srv ''IsSafeToDelete'' w
      else if opNum = 9 then decode_and_call cdc ctx srv ''FlushPartitionCache'' w
      else if opNum = 10 then decode_and_call cdc ctx srv ''EnumerateSRPLevels'' w
      else if opNum = 11 then decode_and_call cdc ctx srv ''GetComponentVersions'' w
      else ((None, None), w))"

definition NewCatalogUtils2ServerHandle ::
  "('ctx, 'rd, 'st, 'req, 'resp, 'op, 'e, 'z) base_handle \<Rightarrow>
     ('ctx, 'rd, 'req, 'resp, 'op, 'e) codec \<Rightarrow> ('ctx, 'req, 'resp, 'e, 'st) server \<Rightarrow>
     ('ctx, 'rd, 'st, 'req, 'op, 'e, 'z) ServerHandle" where
  "NewCatalogUtils2ServerHandle UnknownServerHandle cdc srv =
     (\<lambda>ctx opNum w. CatalogUtils2ServerHandle UnknownServerHandle cdc ctx srv opNum w)"

definition RegisterCatalogUtils2Server ::
  "('conn, ('ctx, 'rd, 'st, 'req, 'op, 'e, 'z) ServerHandle, 'opt, 'syn) dcerpc \<Rightarrow> 'syn \<Rightarrow>
     ('ctx, 'rd, 'st, 'req, 'resp, 'op, 'e, 'z) base_handle \<Rightarrow>
     ('ctx, 'rd, 'req, 'resp, 'op, 'e) codec \<Rightarrow> 'conn \<Rightarrow> ('ctx, 'req, 'resp, 'e, 'st) server \<Rightarrow>
     'opt list \<Rightarrow> 'conn" where
  "RegisterCatalogUtils2Server rpc CatalogUtils2SyntaxV0_0 UnknownServerHandle cdc conn srv opts =
     RegisterServer rpc conn (NewCatalogUtils2ServerHandle UnknownServerHandle cdc srv)
       (opts @ [WithAbstractSyntax rpc CatalogUtils2SyntaxV0_0])"

subsection \<open>Package \<^verbatim>\<open>nspi\<close>\<close>

definition NspiServerHandle ::
  "('ctx, 'rd, 'st, 'req, 'resp, 'op, 'e, 'z) handle" where
  "NspiServerHandle cdc ctx srv opNum w =
     (if opNum = 0 then decode_and_call cdc ctx srv ''Bind'' w
      else if opNum = 1 then decode_and_call cdc ctx srv ''Unbind'' w
      else if opNum = 2 then decode_and_call cdc ctx srv ''UpdateStat'' w
      else if opNum = 3 then decode_and_call cdc ctx srv ''QueryRows'' w
      else if opNum = 4 then decode_and_call cdc ctx srv ''SeekEntries'' w
      else if opNum = 5 then decode_and_call cdc ctx srv ''GetMatches'' w
      else if opNum = 6 then decode_and_call cdc ctx srv ''ResortRestriction'' w
      else if opNum = 7 then decode_and_call cdc ctx srv ''DNToMID'' w
      else if opNum = 8 then decode_and_call cdc ctx srv ''GetPropertyList'' w
      else if opNum = 9 then decode_and_call cdc ctx srv ''GetProperties'' w
      else if opNum = 10 then decode_and_call cdc ctx srv ''CompareMIDs'' w
      else if opNum = 11 then decode_and_call cdc ctx srv ''ModifyProperties'' w
      else if opNum = 12 then decode_and_call cdc ctx srv ''GetSpecialTable'' w
      else if opNum = 13 then decode_and_call cdc ctx srv ''GetTemplateInfo'' w
      else if opNum = 14 then decode_and_call cdc ctx srv ''ModifyLinkAttribute'' w
      else if opNum = 15 then ((None, None), w)
      else if opNum = 16 then decode_and_call cdc ctx srv ''QueryColumns'' w
      else if opNum = 17 then decode_and_call cdc ctx srv ''GetNamesFromIDs'' w
      else if opNum = 18 then decode_and_call cdc ctx srv ''GetIDsFromNames'' w
      else if opNum = 19 then decode_and_call cdc ctx srv ''ResolveNames'' w
      else if opNum = 20 then decode_and_call cdc ctx srv ''ResolveNamesW'' w
      else ((None, None), w))"

definition NewNspiServerHandle ::
  "('ctx, 'rd, 'req, 'resp, 'op, 'e) codec \<Rightarrow> ('ctx, 'req, 'resp, 'e, 'st) server \<Rightarrow>
     ('ctx, 'rd, 'st, 'req, 'op, 'e, 'z) ServerHandle" where
  "NewNspiServerHandle cdc srv =
     (\<lambda>ctx opNum w. NspiServerHandle cdc ctx srv opNum w)"

definition RegisterNspiServer ::
  "('conn, ('ctx, 'rd, 'st, 'req, 'op, 'e, 'z) ServerHandle, 'opt, 'syn) dcerpc \<Rightarrow> 'syn \<Rightarrow>
     ('ctx, 'rd, 'req, 'resp, 'op, 'e) codec \<Rightarrow> 'conn \<Rightarrow> ('ctx, 'req, 'resp, 'e, 'st) server \<Rightarrow>
     'opt list \<Rightarrow> 'conn" where
  "RegisterNspiServer rpc NspiSyntaxV56_0 cdc conn srv opts =
     RegisterServer rpc conn (NewNspiServerHandle cdc srv)
       (opts @ [WithAbstractSyntax rpc NspiSyntaxV56_0])"

subsection \<open>Package \<^verbatim>\<open>dhcpsrv2\<close>\<close>

definition Dhcpsrv2ServerHandle ::
  "('ctx, 'rd, 'st, 'req, 'resp, 'op, 'e, 'z) handle" where
  "Dhcpsrv2ServerHandle cdc ctx srv opNum w =
     (if opNum = 0 then decode_and_call cdc ctx srv ''EnumSubnetClientsV5'' w
      else if opNum = 1 then decode_and_call cdc ctx srv ''SetMScopeInfo'' w
      else if opNum = 2 then decode_and_call cdc ctx srv ''GetMScopeInfo'' w
      else if opNum = 3 then decode_and_call cdc ctx srv ''EnumMScopes'' w
      else if opNum = 4 then decode_and_call cdc ctx srv ''AddMScopeElement'' w
      else if opNum = 5 then decode_and_call cdc ctx srv ''EnumMScopeElements'' w
      else if opNum = 6 then decode_and_call cdc ctx srv ''RemoveMScopeElement'' w
      else if opNum = 7 then decode_and_call cdc ctx srv ''DeleteMScope'' w
      else if opNum = 8 then decode_and_call cdc ctx srv ''ScanMDatabase'' w
      else if opNum = 9 then decode_and_call cdc ctx srv ''CreateMClientInfo'' w
      else if opNum = 10 then decode_and_call cdc ctx srv ''SetMClientInfo'' w
      else if opNum = 11 then decode_and_call cdc ctx srv ''GetMClientInfo'' w
      else if opNum = 12 then decode_and_call cdc ctx srv ''DeleteMClientInfo'' w
      else if opNum = 13 then decode_and_call cdc ctx srv ''EnumMScopeClients'' w
      else if opNum = 14 then decode_and_call cdc ctx srv ''CreateOptionV5'' w
      else if opNum = 15 then decode_and_call cdc ctx srv ''SetOptionInfoV5'' w
      else if opNum = 16 then decode_and_call cdc ctx srv ''GetOptionInfoV5'' w
      else if opNum = 17 then decode_and_call cdc ctx srv ''EnumOptionsV5'' w
      else if opNum = 18 then decode_and_call cdc ctx srv ''RemoveOptionV5'' w
      else if opNum = 19 then decode_and_call cdc ctx srv ''SetOptionValueV5'' w
      else if opNum = 20 then decode_and_call cdc ctx srv ''SetOptionValuesV5'' w
      else if opNum = 21 then decode_and_call cdc ctx srv ''GetOptionValueV5'' w
      else if opNum = 22 then decode_and_call cdc ctx srv ''EnumOptionValuesV5'' w
      else if opNum = 23 then decode_and_call cdc ctx srv ''RemoveOptionValueV5'' w
      else if opNum = 24 then decode_and_call cdc ctx srv ''CreateClass'' w
      else if opNum = 25 then decode_and_call cdc ctx srv ''ModifyClass'' w
      else if opNum = 26 then decode_and_call cdc ctx srv ''DeleteClass'' w
      else if opNum = 27 then decode_and_call cdc ctx srv ''GetClassInfo'' w
      else if opNum = 28 then decode_and_call cdc ctx srv ''EnumClasses'' w
      else if opNum = 29 then decode_and_call cdc ctx srv ''GetAllOptions'' w
      else if opNum = 30 then decode_and_call cdc ctx srv ''GetAllOptionValues'' w
      else if opNum = 31 then decode_and_call cdc ctx srv ''GetMCastMIBInfo'' w
      else if opNum = 32 then decode_and_call cdc ctx srv ''AuditLogSetParams'' w
      else if opNum = 33 then decode_and_call cdc ctx srv ''AuditLogGetParams'' w
      else if opNum = 34 then decode_and_call cdc ctx srv ''ServerQueryAttribute'' w
      else if opNum = 35 then decode_and_call cdc ctx srv ''ServerQueryAttributes'' w
      else if opNum = 36 then decode_and_call cdc ctx srv ''ServerRedoAuthorization'' w
      else if opNum = 37 then decode_and_call cdc ctx srv ''AddSubnetElementV5'' w
      else if opNum = 38 then decode_and_call cdc ctx srv ''EnumSubnetElementsV5'' w
      else if opNum = 39 then decode_and_call cdc ctx srv ''RemoveSubnetElementV5'' w
      else if opNum = 40 then decode_and_call cdc ctx srv ''GetServerBindingInfo'' w
      else if opNum = 41 then decode_and_call cdc ctx srv ''SetServerBindingInfo'' w
      else if opNum = 42 then decode_and_call cdc ctx srv ''QueryDNSRegCredentials'' w
      else if opNum = 43 then decode_and_call cdc ctx srv ''SetDNSRegCredentials'' w
      else if opNum = 44 then decode_and_call cdc ctx srv ''BackupDatabase'' w
      else if opNum = 45 then decode_and_call cdc ctx srv ''RestoreDatabase'' w
      else if opNum = 46 then decode_and_call cdc ctx srv ''GetServerSpecificStrings'' w
      else if opNum = 47 then decode_and_call cdc ctx srv ''CreateOptionV6'' w
      else if opNum = 48 then decode_and_call cdc ctx srv ''SetOptionInfoV6'' w
      else if opNum = 49 then decode_and_call cdc ctx srv ''GetOptionInfoV6'' w
      else if opNum = 50 then decode_and_call cdc ctx srv ''EnumOptionsV6'' w
      else if opNum = 51 then decode_and_call cdc ctx srv ''RemoveOptionV6'' w
      else if opNum = 52 then decode_and_call cdc ctx srv ''SetOptionValueV6'' w
      else if opNum = 53 then decode_and_call cdc ctx srv ''EnumOptionValuesV6'' w
      else if opNum = 54 then decode_and_call cdc ctx srv ''RemoveOptionValueV6'' w
      else if opNum = 55 then decode_and_call cdc ctx srv ''GetAllOptionsV6'' w
      else if opNum = 56 then decode_and_call cdc ctx srv ''GetAllOptionValuesV6'' w
      else if opNum = 57 then decode_and_call cdc ctx srv ''CreateSubnetV6'' w
      else if opNum = 58 then decode_and_call cdc ctx srv ''EnumSubnetsV6'' w
      else if opNum = 59 then decode_and_call cdc ctx srv ''AddSubnetElementV6'' w
      else if opNum = 60 then decode_and_call cdc ctx srv ''EnumSubnetElementsV6'' w
      else if opNum = 61 then decode_and_call cdc ctx srv ''RemoveSubnetElementV6'' w
      else if opNum = 62 then decode_and_call cdc ctx srv ''DeleteSubnetV6'' w
      else if opNum = 63 then decode_and_call cdc ctx srv ''GetSubnetInfoV6'' w
      else if opNum = 64 then decode_and_call cdc ctx srv ''EnumSubnetClientsV6'' w
      else if opNum = 65 then decode_and_call cdc ctx srv ''ServerSetConfigV6'' w
      else if opNum = 66 then decode_and_call cdc ctx srv ''ServerGetConfigV6'' w
      else if opNum = 67 then decode_and_call cdc ctx srv ''SetSubnetInfoV6'' w
      else if opNum = 68 then decode_and_call cdc ctx srv ''GetMIBInfoV6'' w
      else if opNum = 69 then decode_and_call cdc ctx srv ''GetServerBindingInfoV6'' w
      else if opNum = 70 then decode_and_call cdc ctx srv ''SetServerBindingInfoV6'' w
      else if opNum = 71 then decode_and_call cdc ctx srv ''SetClientInfoV6'' w
      else if opNum = 72 then decode_and_call cdc ctx srv ''GetClientInfoV6'' w
      else if opNum = 73 then decode_and_call cdc ctx srv ''DeleteClientInfoV6'' w
      else if opNum = 74 then decode_and_call cdc ctx srv ''CreateClassV6'' w
      else if opNum = 75 then decode_and_call cdc ctx srv ''ModifyClassV6'' w
      else if opNum = 76 then decode_and_call cdc ctx srv ''DeleteClassV6'' w
      else if opNum = 77 then decode_and_call cdc ctx srv ''EnumClassesV6'' w
      else if opNum = 78 then decode_and_call cdc ctx srv ''GetOptionValueV6'' w
      else if opNum = 79 then decode_and_call cdc ctx srv ''SetSubnetDelayOffer'' w
      else if opNum = 80 then decode_and_call cdc ctx srv ''GetSubnetDelayOffer'' w
      else if opNum = 81 then decode_and_call cdc ctx srv ''GetMIBInfoV5'' w
      else if opNum = 82 then decode_and_call cdc ctx srv ''AddFilterV4'' w
      else if opNum = 83 then decode_and_call cdc ctx srv ''DeleteFilterV4'' w
      else if opNum = 84 then decode_and_call cdc ctx srv ''SetFilterV4'' w
      else if opNum = 85 then decode_and_call cdc ctx srv ''GetFilterV4'' w
      else if opNum = 86 then decode_and_call cdc ctx srv ''EnumFilterV4'' w
      else if opNum = 87 then decode_and_call cdc ctx srv ''SetDNSRegCredentialsV5'' w
      else if opNum = 88 then decode_and_call cdc ctx srv ''EnumSubnetClientsFilterStatusInfo'' w
      else if opNum = 89 then decode_and_call cdc ctx srv ''FailoverCreateRelationshipV4'' w
      else if opNum = 90 then decode_and_call cdc ctx srv ''FailoverSetRelationshipV4'' w
      else if opNum = 91 then decode_and_call cdc ctx srv ''FailoverDeleteRelationshipV4'' w
      else if opNum = 92 then decode_and_call cdc ctx srv ''FailoverGetRelationshipV4'' w
      else if opNum = 93 then decode_and_call cdc ctx srv ''FailoverEnumRelationshipV4'' w
      else if opNum = 94 then decode_and_call cdc ctx srv ''FailoverAddScopeToRelationshipV4'' w
      else if opNum = 95 then decode_and_call cdc ctx srv ''FailoverDeleteScopeFromRelationshipV4'' w
      else if opNum = 96 then decode_and_call cdc ctx srv ''FailoverGetScopeRelationshipV4'' w
      else if opNum = 97 then decode_and_call cdc ctx srv ''FailoverGetScopeStatisticsV4'' w
      else if opNum = 98 then decode_and_call cdc ctx srv ''FailoverGetClientInfoV4'' w
      else if opNum = 99 then decode_and_call cdc ctx srv ''FailoverGetSystemTimeV4'' w
      else if opNum = 100 then decode_and_call cdc ctx srv ''FailoverTriggerAddrAllocationV4'' w
      else if opNum = 101 then decode_and_call cdc ctx srv ''SetOptionValueV4'' w
      else if opNum = 102 then decode_and_call cdc ctx srv ''SetOptionValuesV4'' w
      else if opNum = 103 then decode_and_call cdc ctx srv ''GetOptionValueV4'' w
      else if opNum = 104 then decode_and_call cdc ctx srv ''RemoveOptionValueV4'' w
      else if opNum = 105 then decode_and_call cdc ctx srv ''GetAllOptionValuesV4'' w
      else if opNum = 106 then decode_and_call cdc ctx srv ''QueryPolicyEnforcementV4'' w
      else if opNum = 107 then decode_and_call cdc ctx srv ''SetPolicyEnforcementV4'' w
      else if opNum = 108 then decode_and_call cdc ctx srv ''CreatePolicyV4'' w
      else if opNum = 109 then decode_and_call cdc ctx srv ''GetPolicyV4'' w
      else if opNum = 110 then decode_and_call cdc ctx srv ''SetPolicyV4'' w
      else if opNum = 111 then decode_and_call cdc ctx srv ''DeletePolicyV4'' w
      else if opNum = 112 then decode_and_call cdc ctx srv ''EnumPoliciesV4'' w
      else if opNum = 113 then decode_and_call cdc ctx srv ''AddPolicyRangeV4'' w
      else if opNum = 114 then decode_and_call cdc ctx srv ''RemovePolicyRangeV4'' w
      else if opNum = 115 then decode_and_call cdc ctx srv ''EnumSubnetClientsV4'' w
      else if opNum = 116 then decode_and_call cdc ctx srv ''SetStatelessStoreParamsV6'' w
      else if opNum = 117 then decode_and_call cdc ctx srv ''GetStatelessStoreParamsV6'' w
      else if opNum = 118 then decode_and_call cdc ctx srv ''GetStatelessStatisticsV6'' w
      else if opNum = 119 then decode_and_call cdc ctx srv ''EnumSubnetReservationsV4'' w
      else if opNum = 120 then decode_and_call cdc ctx srv ''GetFreeIPAddressV4'' w
      else if opNum = 121 then decode_and_call cdc ctx srv ''GetFreeIPAddressV6'' w
      else if opNum = 122 then decode_and_call cdc ctx srv ''CreateClientInfoV4'' w
      else if opNum = 123 then decode_and_call cdc ctx srv ''GetClientInfoV4'' w
      else if opNum = 124 then decode_and_call cdc ctx srv ''CreateClientInfoV6'' w
      else if opNum = 125 then decode_and_call cdc ctx srv ''FailoverGetAddressStatusV4'' w
      else if opNum = 126 then decode_and_call cdc ctx srv ''CreatePolicyExV4'' w
      else if opNum = 127 then decode_and_call cdc ctx srv ''GetPolicyExV4'' w
      else if opNum = 128 then decode_and_call cdc ctx srv ''SetPolicyExV4'' w
      else if opNum = 129 then decode_and_call cdc ctx srv ''EnumPoliciesExV4'' w
      else if opNum = 130 then decode_and_call cdc ctx srv ''EnumSubnetClientsExV4'' w
      else if opNum = 131 then decode_and_call cdc ctx srv ''CreateClientInfoExV4'' w
      else if opNum = 132 then decode_and_call cdc ctx srv ''GetClientInfoExV4'' w
      else ((None, None), w))"

definition NewDhcpsrv2ServerHandle ::
  "('ctx, 'rd, 'req, 'resp, 'op, 'e) codec \<Rightarrow> ('ctx, 'req, 'resp, 'e, 'st) server \<Rightarrow>
     ('ctx, 'rd, 'st, 'req, 'op, 'e, 'z) ServerHandle" where
  "NewDhcpsrv2ServerHandle cdc srv =
     (\<lambda>ctx opNum w. Dhcpsrv2ServerHandle cdc ctx srv opNum w)"

definition RegisterDhcpsrv2Server ::
  "('conn, ('ctx, 'rd, 'st, 'req, 'op, 'e, 'z) ServerHandle, 'opt, 'syn) dcerpc \<Rightarrow> 'syn \<Rightarrow>
     ('ctx, 'rd, 'req, 'resp, 'op, 'e) codec \<Rightarrow> 'conn \<Rightarrow> ('ctx, 'req, 'resp, 'e, 'st) server \<Rightarrow>
     'opt list \<Rightarrow> 'conn" where
  "RegisterDhcpsrv2Server rpc Dhcpsrv2SyntaxV1_0 cdc conn srv opts =
     RegisterServer rpc conn (NewDhcpsrv2ServerHandle cdc srv)
       (opts @ [WithAbstractSyntax rpc Dhcpsrv2SyntaxV1_0])"
section \<open>What the stubs have in common\<close>

text \<open>
  \<open>serves h opNum m\<close>: at \<open>opNum\<close> the stub \<open>h\<close> runs the case body for method \<open>m\<close>,
  whatever the codec, the context, the implementation and the state are.
\<close>

definition serves ::
  "('ctx, 'rd, 'st, 'req, 'resp, 'op, 'e, 'z) handle \<Rightarrow> int \<Rightarrow> method_name \<Rightarrow> bool" where
  "serves h opNum m \<longleftrightarrow>
     (\<forall>cdc ctx srv w. h cdc ctx srv opNum w = decode_and_call cdc ctx srv m w)"

text \<open>
  The stubs, each with the bound of its guard \<^verbatim>\<open>if opNum < b\<close> (\<open>None\<close> for a
  stub without a base interface) and the case labels of its switch that serve a method.
  A stub without a base ignores the base parameter.
\<close>

type_synonym ('ctx, 'rd, 'st, 'req, 'resp, 'op, 'e, 'z) entry =
  "(('ctx, 'rd, 'st, 'req, 'resp, 'op, 'e, 'z) base_handle \<Rightarrow>
     ('ctx, 'rd, 'st, 'req, 'resp, 'op, 'e, 'z) handle) \<times> int option \<times> int set"

definition stubs :: "('ctx, 'rd, 'st, 'req, 'resp, 'op, 'e, 'z) entry list" where
  "stubs =
     [((\<lambda>base. WindowsShutdownServerHandle), None, {0, 1}),
      (ServiceSANServerHandle, Some 3, {3, 4}),
      (AppHostPropertyCollectionServerHandle, Some 3, {3, 4}),
      (AppHostPathMapperServerHandle, Some 3, {3}),
      (AppHostElementCollectionServerHandle, Some 3, {3..9}),
      (WAMAdminServerHandle, Some 3, {3..8}),
      (DataFactory3ServerHandle, Some 9, {9, 10}),
      (FileScreenTemplateServerHandle, Some 18, {18..21}),
      (VDiskProviderServerHandle, Some 3, {3..7}),
      (CatalogUtils2ServerHandle, Some 3, {3..11}),
      ((\<lambda>base. NspiServerHandle), None, {0..14} \<union> {16..20}),
      ((\<lambda>base. Dhcpsrv2ServerHandle), None, {0..132})]"

text \<open>The operation numbers that reach a stub's own switch.\<close>

fun own :: "int option \<Rightarrow> int set" where
  "own None = UNIV"
| "own (Some b) = {b..}"

section \<open>A small instance\<close>

text \<open>
  A concrete codec, implementation and state, on which the stubs can be run. The reader
  holds the words that are left of the argument block and a request is one word:
  decoding takes the first word and fails on an empty reader. The implementation counts
  its calls in its state and refuses the request \<open>0\<close>; it answers every method alike.
  The conversion wraps the response.
\<close>

definition example_codec :: "(unit, nat list, nat, nat, nat, string) codec" where
  "example_codec =
     \<lparr>UnmarshalNDR = (\<lambda>m ctx rd. case rd of [] \<Rightarrow> (Some ''EOF'', 0, []) | x # xs \<Rightarrow> (None, x, xs)),
      xxx_ToOp = (\<lambda>m ctx resp. Some resp)\<rparr>"

definition example_server :: "(unit, nat, nat, string, nat) server" where
  "example_server =
     (\<lambda>m ctx req n. if req = 0 then ((0, Some ''denied''), Suc n) else ((req, None), Suc n))"

definition example_world :: "nat list \<Rightarrow> (nat list, nat, nat) world" where
  "example_world rd = \<lparr>reader = rd, server_state = 0, events = []\<rparr>"

type_synonym example_handle = "(unit, nat list, nat, nat, nat, nat, string, unit) handle"

type_synonym example_base = "(unit, nat list, nat, nat, nat, nat, string, unit) base_handle"

text \<open>A base stub for the instance: it answers every operation number with a fixed error.\<close>

definition example_base :: example_base where
  "example_base = (\<lambda>ctx srv opNum w. ((None, Some ''base''), w))"

section \<open>The case body\<close>

lemma decode_and_call_fail:
  assumes "UnmarshalNDR cdc m ctx (reader w) = (Some e, req, r')"
  shows "decode_and_call cdc ctx srv m w =
           ((None, Some e), w\<lparr>reader := r', events := events w @ [Unmarshal m]\<rparr>)"
  using assms by (simp add: decode_and_call_def)

lemma decode_and_call_ok:
  assumes "UnmarshalNDR cdc m ctx (reader w) = (None, req, r')"
  shows "decode_and_call cdc ctx srv m w =
           ((xxx_ToOp cdc m ctx (fst (fst (srv m ctx req (server_state w)))),
             snd (fst (srv m ctx req (server_state w)))),
            w\<lparr>reader := r', server_state := snd (srv m ctx req (server_state w)),
              events := events w @ [Unmarshal m, Handler m req]\<rparr>)"
  using assms by (simp add: decode_and_call_def split: prod.splits)

lemma decode_and_call_events:
  "\<exists>evs. events (snd (decode_and_call cdc ctx srv m w)) = events w @ Unmarshal m # evs"
  by (simp add: decode_and_call_def Let_def split: prod.splits option.splits)

lemma decode_and_call_frame:
  "case UnmarshalNDR cdc m ctx (reader w) of
     (err, req, r') \<Rightarrow>
       snd (decode_and_call cdc ctx srv m w) =
         w\<lparr>reader := r', events := events w @ [Unmarshal m]\<rparr> \<or>
       snd (decode_and_call cdc ctx srv m w) =
         w\<lparr>reader := r', server_state := snd (srv m ctx req (server_state w)),
           events := events w @ [Unmarshal m, Handler m req]\<rparr>"
  by (simp add: decode_and_call_def Let_def split: prod.splits option.splits)

lemma decode_and_call_more:
  "world.more (snd (decode_and_call cdc ctx srv m w)) = world.more w"
  by (simp add: decode_and_call_def Let_def split: prod.splits option.splits)

lemma decode_and_call_same:
  assumes "reader w2 = reader w" and "server_state w2 = server_state w"
  shows "fst (decode_and_call cdc ctx srv m w2) = fst (decode_and_call cdc ctx srv m w) \<and>
         reader (snd (decode_and_call cdc ctx srv m w2)) =
           reader (snd (decode_and_call cdc ctx srv m w)) \<and>
         server_state (snd (decode_and_call cdc ctx srv m w2)) =
           server_state (snd (decode_and_call cdc ctx srv m w))"
  using assms by (simp add: decode_and_call_def Let_def split: prod.splits option.splits)

section \<open>Serving a method\<close>

text \<open>
  The case body always logs its \<open>Unmarshal\<close> event, so a stub serves at most one method
  at an operation number, and a call that serves a method never leaves the state as it was.
\<close>

lemma serves_unique:
  fixes h :: "('ctx, 'rd, 'st, 'req, 'resp, 'op, 'e, 'z) handle"
  assumes "serves h opNum m" and "serves h opNum m'"
  shows "m = m'"
proof -
  fix cdc :: "('ctx, 'rd, 'req, 'resp, 'op, 'e) codec" and ctx :: 'ctx
    and srv :: "('ctx, 'req, 'resp, 'e, 'st) server" and w :: "('rd, 'st, 'req, 'z) world_scheme"
  from assms have eq: "decode_and_call cdc ctx srv m w = decode_and_call cdc ctx srv m' w"
    unfolding serves_def by metis
  obtain evs where 1: "events (snd (decode_and_call cdc ctx srv m w)) = events w @ Unmarshal m # evs"
    using decode_and_call_events [of cdc ctx srv m w] by blast
  obtain evs' where 2:
    "events (snd (decode_and_call cdc ctx srv m' w)) = events w @ Unmarshal m' # evs'"
    using decode_and_call_events [of cdc ctx srv m' w] by blast
  have "events w @ Unmarshal m # evs = events (snd (decode_and_call cdc ctx srv m w))"
    using 1 by (rule sym)
  also have "\<dots> = events (snd (decode_and_call cdc ctx srv m' w))"
    by (simp only: eq)
  also have "\<dots> = events w @ Unmarshal m' # evs'"
    by (rule 2)
  finally show ?thesis
    by simp
qed

lemma serves_not_silent:
  assumes "serves h opNum m"
  shows "h cdc ctx srv opNum w \<noteq> ((None, None), w)"
proof
  assume "h cdc ctx srv opNum w = ((None, None), w)"
  with assms have "decode_and_call cdc ctx srv m w = ((None, None), w)"
    by (simp add: serves_def)
  then have "events (snd (decode_and_call cdc ctx srv m w)) = events w"
    by simp
  with decode_and_call_events [of cdc ctx srv m w] show False
    by auto
qed

section \<open>Each stub, case by case\<close>

lemma WindowsShutdown_cases:
  "serves WindowsShutdownServerHandle 0 ''InitiateShutdown''"
  "serves WindowsShutdownServerHandle 1 ''AbortShutdown''"
  by (simp_all add: serves_def WindowsShutdownServerHandle_def)

lemma WindowsShutdown_serves:
  assumes "opNum \<in> {0, 1}"
  shows "\<exists>m. serves WindowsShutdownServerHandle opNum m"
proof -
  have "\<forall>k\<in>set ([0..1]). \<exists>m. serves WindowsShutdownServerHandle k m"
    by (simp add: upto_rec1 del: set_upto) ((intro conjI exI allI)?, (rule WindowsShutdown_cases)+)
  then have "\<forall>k\<in>{0..1}. \<exists>m. serves WindowsShutdownServerHandle k m"
    by (simp only: set_append set_upto)
  moreover from assms have "opNum \<in> {0..1}"
    by auto
  ultimately show ?thesis
    by blast
qed

lemma WindowsShutdown_other:
  assumes "opNum \<notin> {0, 1}"
  shows "WindowsShutdownServerHandle cdc ctx srv opNum w = ((None, None), w)"
proof -
  from assms consider "opNum < 0" | "1 < opNum"
    by fastforce
  then show ?thesis
    by cases (simp_all add: WindowsShutdownServerHandle_def)
qed

lemma ServiceSAN_cases:
  "serves (ServiceSANServerHandle base) 3 ''GetSANPolicy''"
  "serves (ServiceSANServerHandle base) 4 ''SetSANPolicy''"
  by (simp_all add: serves_def ServiceSANServerHandle_def)

lemma ServiceSAN_serves:
  assumes "opNum \<in> {3, 4}"
  shows "\<exists>m. \<forall>base. serves (ServiceSANServerHandle base) opNum m"
proof -
  have "\<forall>k\<in>set ([3..4]). \<exists>m. \<forall>base. serves (ServiceSANServerHandle base) k m"
    by (simp add: upto_rec1 del: set_upto) ((intro conjI exI allI)?, (rule ServiceSAN_cases)+)
  then have "\<forall>k\<in>{3..4}. \<exists>m. \<forall>base. serves (ServiceSANServerHandle base) k m"
    by (simp only: set_append set_upto)
  moreover from assms have "opNum \<in> {3..4}"
    by auto
  ultimately show ?thesis
    by blast
qed

lemma ServiceSAN_other:
  "3 \<le> opNum \<Longrightarrow> opNum \<notin> {3, 4} \<Longrightarrow> ServiceSANServerHandle base cdc ctx srv opNum w = ((None, None), w)"
  by (simp add: ServiceSANServerHandle_def)

lemma ServiceSAN_base:
  "opNum < 3 \<Longrightarrow> ServiceSANServerHandle base cdc ctx srv opNum w = base ctx srv opNum w"
  by (simp add: ServiceSANServerHandle_def)

lemma AppHostPropertyCollection_cases:
  "serves (AppHostPropertyCollectionServerHandle base) 3 ''GetCount''"
  "serves (AppHostPropertyCollectionServerHandle base) 4 ''GetItem''"
  by (simp_all add: serves_def AppHostPropertyCollectionServerHandle_def)

lemma AppHostPropertyCollection_serves:
  assumes "opNum \<in> {3, 4}"
  shows "\<exists>m. \<forall>base. serves (AppHostPropertyCollectionServerHandle base) opNum m"
proof -
  have "\<forall>k\<in>set ([3..4]). \<exists>m. \<forall>base. serves (AppHostPropertyCollectionServerHandle base) k m"
    by (simp add: upto_rec1 del: set_upto) ((intro conjI exI allI)?, (rule AppHostPropertyCollection_cases)+)
  then have "\<forall>k\<in>{3..4}. \<exists>m. \<forall>base. serves (AppHostPropertyCollectionServerHandle base) k m"
    by (simp only: set_append set_upto)
  moreover from assms have "opNum \<in> {3..4}"
    by auto
  ultimately show ?thesis
    by blast
qed

lemma AppHostPropertyCollection_other:
  "3 \<le> opNum \<Longrightarrow> opNum \<notin> {3, 4} \<Longrightarrow> AppHostPropertyCollectionServerHandle base cdc ctx srv opNum w = ((None, None), w)"
  by (simp add: AppHostPropertyCollectionServerHandle_def)

lemma AppHostPropertyCollection_base:
  "opNum < 3 \<Longrightarrow> AppHostPropertyCollectionServerHandle base cdc ctx srv opNum w = base ctx srv opNum w"
  by (simp add: AppHostPropertyCollectionServerHandle_def)

lemma AppHostPathMapper_cases:
  "serves (AppHostPathMapperServerHandle base) 3 ''MapPath''"
  by (simp_all add: serves_def AppHostPathMapperServerHandle_def)

lemma AppHostPathMapper_serves:
  assumes "opNum \<in> {3}"
  shows "\<exists>m. \<forall>base. serves (AppHostPathMapperServerHandle base) opNum m"
proof -
  have "\<forall>k\<in>set ([3..3]). \<exists>m. \<forall>base. serves (AppHostPathMapperServerHandle base) k m"
    by (simp add: upto_rec1 del: set_upto) ((intro conjI exI allI)?, (rule AppHostPathMapper_cases)+)
  then have "\<forall>k\<in>{3..3}. \<exists>m. \<forall>base. serves (AppHostPathMapperServerHandle base) k m"
    by (simp only: set_append set_upto)
  moreover from assms have "opNum \<in> {3..3}"
    by auto
  ultimately show ?thesis
    by blast
qed

lemma AppHostPathMapper_other:
  "3 \<le> opNum \<Longrightarrow> opNum \<notin> {3} \<Longrightarrow> AppHostPathMapperServerHandle base cdc ctx srv opNum w = ((None, None), w)"
  by (simp add: AppHostPathMapperServerHandle_def)

lemma AppHostPathMapper_base:
  "opNum < 3 \<Longrightarrow> AppHostPathMapperServerHandle base cdc ctx srv opNum w = base ctx srv opNum w"
  by (simp add: AppHostPathMapperServerHandle_def)

lemma AppHostElementCollection_cases:
  "serves (AppHostElementCollectionServerHandle base) 3 ''GetCount''"
  "serves (AppHostElementCollectionServerHandle base) 4 ''GetItem''"
  "serves (AppHostElementCollectionServerHandle base) 5 ''AddElement''"
  "serves (AppHostElementCollectionServerHandle base) 6 ''DeleteElement''"
  "serves (AppHostElementCollectionServerHandle base) 7 ''Clear''"
  "serves (AppHostElementCollectionServerHandle base) 8 ''CreateNewElement''"
  "serves (AppHostElementCollectionServerHandle base) 9 ''GetSchema''"
  by (simp_all add: serves_def AppHostElementCollectionServerHandle_def)

lemma AppHostElementCollection_serves:
  assumes "opNum \<in> {3..9}"
  shows "\<exists>m. \<forall>base. serves (AppHostElementCollectionServerHandle base) opNum m"
proof -
  have "\<forall>k\<in>set ([3..9]). \<exists>m. \<forall>base. serves (AppHostElementCollectionServerHandle base) k m"
    by (simp add: upto_rec1 del: set_upto) ((intro conjI exI allI)?, (rule AppHostElementCollection_cases)+)
  then have "\<forall>k\<in>{3..9}. \<exists>m. \<forall>base. serves (AppHostElementCollectionServerHandle base) k m"
    by (simp only: set_append set_upto)
  moreover from assms have "opNum \<in> {3..9}"
    by auto
  ultimately show ?thesis
    by blast
qed

lemma AppHostElementCollection_other:
  "3 \<le> opNum \<Longrightarrow> opNum \<notin> {3..9} \<Longrightarrow> AppHostElementCollectionServerHandle base cdc ctx srv opNum w = ((None, None), w)"
  by (simp add: AppHostElementCollectionServerHandle_def)

lemma AppHostElementCollection_base:
  "opNum < 3 \<Longrightarrow> AppHostElementCollectionServerHandle base cdc ctx srv opNum w = base ctx srv opNum w"
  by (simp add: AppHostElementCollectionServerHandle_def)

lemma WAMAdmin_cases:
  "serves (WAMAdminServerHandle base) 3 ''AppCreate''"
  "serves (WAMAdminServerHandle base) 4 ''AppDelete''"
  "serves (WAMAdminServerHandle base) 5 ''AppUnload''"
  "serves (WAMAdminServerHandle base) 6 ''AppGetStatus''"
  "serves (WAMAdminServerHandle base) 7 ''AppDeleteRecoverable''"
  "serves (WAMAdminServerHandle base) 8 ''AppRecover''"
  by (simp_all add: serves_def WAMAdminServerHandle_def)

lemma WAMAdmin_serves:
  assumes "opNum \<in> {3..8}"
  shows "\<exists>m. \<forall>base. serves (WAMAdminServerHandle base) opNum m"
proof -
  have "\<forall>k\<in>set ([3..8]). \<exists>m. \<forall>base. serves (WAMAdminServerHandle base) k m"
    by (simp add: upto_rec1 del: set_upto) ((intro conjI exI allI)?, (rule WAMAdmin_cases)+)
  then have "\<forall>k\<in>{3..8}. \<exists>m. \<forall>base. serves (WAMAdminServerHandle base) k m"
    by (simp only: set_append set_upto)
  moreover from assms have "opNum \<in> {3..8}"
    by auto
  ultimately show ?thesis
    by blast
qed

lemma WAMAdmin_other:
  "3 \<le> opNum \<Longrightarrow> opNum \<notin> {3..8} \<Longrightarrow> WAMAdminServerHandle base cdc ctx srv opNum w = ((None, None), w)"
  by (simp add: WAMAdminServerHandle_def)

lemma WAMAdmin_base:
  "opNum < 3 \<Longrightarrow> WAMAdminServerHandle base cdc ctx srv opNum w = base ctx srv opNum w"
  by (simp add: WAMAdminServerHandle_def)

lemma DataFactory3_cases:
  "serves (DataFactory3ServerHandle base) 9 ''Execute''"
  "serves (DataFactory3ServerHandle base) 10 ''Synchronize''"
  by (simp_all add: serves_def DataFactory3ServerHandle_def)

lemma DataFactory3_serves:
  assumes "opNum \<in> {9, 10}"
  shows "\<exists>m. \<forall>base. serves (DataFactory3ServerHandle base) opNum m"
proof -
  have "\<forall>k\<in>set ([9..10]). \<exists>m. \<forall>base. serves (DataFactory3ServerHandle base) k m"
    by (simp add: upto_rec1 del: set_upto) ((intro conjI exI allI)?, (rule DataFactory3_cases)+)
  then have "\<forall>k\<in>{9..10}. \<exists>m. \<forall>base. serves (DataFactory3ServerHandle base) k m"
    by (simp only: set_append set_upto)
  moreover from assms have "opNum \<in> {9..10}"
    by auto
  ultimately show ?thesis
    by blast
qed

lemma DataFactory3_other:
  "9 \<le> opNum \<Longrightarrow> opNum \<notin> {9, 10} \<Longrightarrow> DataFactory3ServerHandle base cdc ctx srv opNum w = ((None, None), w)"
  by (simp add: DataFactory3ServerHandle_def)

lemma DataFactory3_base:
  "opNum < 9 \<Longrightarrow> DataFactory3ServerHandle base cdc ctx srv opNum w = base ctx srv opNum w"
  by (simp add: DataFactory3ServerHandle_def)

lemma FileScreenTemplate_cases:
  "serves (FileScreenTemplateServerHandle base) 18 ''GetName''"
  "serves (FileScreenTemplateServerHandle base) 19 ''SetName''"
  "serves (FileScreenTemplateServerHandle base) 20 ''CopyTemplate''"
  "serves (FileScreenTemplateServerHandle base) 21 ''CommitAndUpdateDerived''"
  by (simp_all add: serves_def FileScreenTemplateServerHandle_def)

lemma FileScreenTemplate_serves:
  assumes "opNum \<in> {18..21}"
  shows "\<exists>m. \<forall>base. serves (FileScreenTemplateServerHandle base) opNum m"
proof -
  have "\<forall>k\<in>set ([18..21]). \<exists>m. \<forall>base. serves (FileScreenTemplateServerHandle base) k m"
    by (simp add: upto_rec1 del: set_upto) ((intro conjI exI allI)?, (rule FileScreenTemplate_cases)+)
  then have "\<forall>k\<in>{18..21}. \<exists>m. \<forall>base. serves (FileScreenTemplateServerHandle base) k m"
    by (simp only: set_append set_upto)
  moreover from assms have "opNum \<in> {18..21}"
    by auto
  ultimately show ?thesis
    by blast
qed

lemma FileScreenTemplate_other:
  "18 \<le> opNum \<Longrightarrow> opNum \<notin> {18..21} \<Longrightarrow> FileScreenTemplateServerHandle base cdc ctx srv opNum w = ((None, None), w)"
  by (simp add: FileScreenTemplateServerHandle_def)

lemma FileScreenTemplate_base:
  "opNum < 18 \<Longrightarrow> FileScreenTemplateServerHandle base cdc ctx srv opNum w = base ctx srv opNum w"
  by (simp add: FileScreenTemplateServerHandle_def)

lemma VDiskProvider_cases:
  "serves (VDiskProviderServerHandle base) 3 ''QueryVDisks''"
  "serves (VDiskProviderServerHandle base) 4 ''CreateVDisk''"
  "serves (VDiskProviderServerHandle base) 5 ''AddVDisk''"
  "serves (VDiskProviderServerHandle base) 6 ''GetDiskFromVDisk''"
  "serves (VDiskProviderServerHandle base) 7 ''GetVDiskFromDisk''"
  by (simp_all add: serves_def VDiskProviderServerHandle_def)

lemma VDiskProvider_serves:
  assumes "opNum \<in> {3..7}"
  shows "\<exists>m. \<forall>base. serves (VDiskProviderServerHandle base) opNum m"
proof -
  have "\<forall>k\<in>set ([3..7]). \<exists>m. \<forall>base. serves (VDiskProviderServerHandle base) k m"
    by (simp add: upto_rec1 del: set_upto) ((intro conjI exI allI)?, (rule VDiskProvider_cases)+)
  then have "\<forall>k\<in>{3..7}. \<exists>m. \<forall>base. serves (VDiskProviderServerHandle base) k m"
    by (simp only: set_append set_upto)
  moreover from assms have "opNum \<in> {3..7}"
    by auto
  ultimately show ?thesis
    by blast
qed

lemma VDiskProvider_other:
  "3 \<le> opNum \<Longrightarrow> opNum \<notin> {3..7} \<Longrightarrow> VDiskProviderServerHandle base cdc ctx srv opNum w = ((None, None), w)"
  by (simp add: VDiskProviderServerHandle_def)

lemma VDiskProvider_base:
  "opNum < 3 \<Longrightarrow> VDiskProviderServerHandle base cdc ctx srv opNum w = base ctx srv opNum w"
  by (simp add: VDiskProviderServerHandle_def)

lemma CatalogUtils2_cases:
  "serves (CatalogUtils2ServerHandle base) 3 ''CopyConglomerations''"
  "serves (CatalogUtils2ServerHandle base) 4 ''CopyComponentConfiguration''"
  "serves (CatalogUtils2ServerHandle base) 5 ''AliasComponent''"
  "serves (CatalogUtils2ServerHandle base) 6 ''MoveComponentConfiguration''"
  "serves (CatalogUtils2ServerHandle base) 7 ''GetEventClassesForIid2''"
  "serves (CatalogUtils2ServerHandle base) 8 ''IsSafeToDelete''"
  "serves (CatalogUtils2ServerHandle base) 9 ''FlushPartitionCache''"
  "serves (CatalogUtils2ServerHandle base) 10 ''EnumerateSRPLevels''"
  "serves (CatalogUtils2ServerHandle base) 11 ''GetComponentVersions''"
  by (simp_all add: serves_def CatalogUtils2ServerHandle_def)

lemma CatalogUtils2_serves:
  assumes "opNum \<in> {3..11}"
  shows "\<exists>m. \<forall>base. serves (CatalogUtils2ServerHandle base) opNum m"
proof -
  have "\<forall>k\<in>set ([3..11]). \<exists>m. \<forall>base. serves (CatalogUtils2ServerHandle base) k m"
    by (simp add: upto_rec1 del: set_upto) ((intro conjI exI allI)?, (rule CatalogUtils2_cases)+)
  then have "\<forall>k\<in>{3..11}. \<exists>m. \<forall>base. serves (CatalogUtils2ServerHandle base) k m"
    by (simp only: set_append set_upto)
  moreover from assms have "opNum \<in> {3..11}"
    by auto
  ultimately show ?thesis
    by blast
qed

lemma CatalogUtils2_other:
  "3 \<le> opNum \<Longrightarrow> opNum \<notin> {3..11} \<Longrightarrow> CatalogUtils2ServerHandle base cdc ctx srv opNum w = ((None, None), w)"
  by (simp add: CatalogUtils2ServerHandle_def)

lemma CatalogUtils2_base:
  "opNum < 3 \<Longrightarrow> CatalogUtils2ServerHandle base cdc ctx srv opNum w = base ctx srv opNum w"
  by (simp add: CatalogUtils2ServerHandle_def)

lemma Nspi_cases:
  "serves NspiServerHandle 0 ''Bind''"
  "serves NspiServerHandle 1 ''Unbind''"
  "serves NspiServerHandle 2 ''UpdateStat''"
  "serves NspiServerHandle 3 ''QueryRows''"
  "serves NspiServerHandle 4 ''SeekEntries''"
  "serves NspiServerHandle 5 ''GetMatches''"
  "serves NspiServerHandle 6 ''ResortRestriction''"
  "serves NspiServerHandle 7 ''DNToMID''"
  "serves NspiServerHandle 8 ''GetPropertyList''"
  "serves NspiServerHandle 9 ''GetProperties''"
  "serves NspiServerHandle 10 ''CompareMIDs''"
  "serves NspiServerHandle 11 ''ModifyProperties''"
  "serves NspiServerHandle 12 ''GetSpecialTable''"
  "serves NspiServerHandle 13 ''GetTemplateInfo''"
  "serves NspiServerHandle 14 ''ModifyLinkAttribute''"
  "serves NspiServerHandle 16 ''QueryColumns''"
  "serves NspiServerHandle 17 ''GetNamesFromIDs''"
  "serves NspiServerHandle 18 ''GetIDsFromNames''"
  "serves NspiServerHandle 19 ''ResolveNames''"
  "serves NspiServerHandle 20 ''ResolveNamesW''"
  by (simp_all add: serves_def NspiServerHandle_def)

lemma Nspi_serves:
  assumes "opNum \<in> {0..14} \<union> {16..20}"
  shows "\<exists>m. serves NspiServerHandle opNum m"
proof -
  have "\<forall>k\<in>set ([0..14] @ [16..20]). \<exists>m. serves NspiServerHandle k m"
    by (simp add: upto_rec1 del: set_upto) ((intro conjI exI allI)?, (rule Nspi_cases)+)
  then have "\<forall>k\<in>{0..14} \<union> {16..20}. \<exists>m. serves NspiServerHandle k m"
    by (simp only: set_append set_upto)
  moreover from assms have "opNum \<in> {0..14} \<union> {16..20}"
    by auto
  ultimately show ?thesis
    by blast
qed

lemma Nspi_other:
  assumes "opNum \<notin> {0..14} \<union> {16..20}"
  shows "NspiServerHandle cdc ctx srv opNum w = ((None, None), w)"
proof -
  from assms consider "opNum < 0" | "opNum = 15" | "20 < opNum"
    by fastforce
  then show ?thesis
    by cases (simp_all add: NspiServerHandle_def)
qed

lemma Dhcpsrv2_cases:
  "serves Dhcpsrv2ServerHandle 0 ''EnumSubnetClientsV5''"
  "serves Dhcpsrv2ServerHandle 1 ''SetMScopeInfo''"
  "serves Dhcpsrv2ServerHandle 2 ''GetMScopeInfo''"
  "serves Dhcpsrv2ServerHandle 3 ''EnumMScopes''"
  "serves Dhcpsrv2ServerHandle 4 ''AddMScopeElement''"
  "serves Dhcpsrv2ServerHandle 5 ''EnumMScopeElements''"
  "serves Dhcpsrv2ServerHandle 6 ''RemoveMScopeElement''"
  "serves Dhcpsrv2ServerHandle 7 ''DeleteMScope''"
  "serves Dhcpsrv2ServerHandle 8 ''ScanMDatabase''"
  "serves Dhcpsrv2ServerHandle 9 ''CreateMClientInfo''"
  "serves Dhcpsrv2ServerHandle 10 ''SetMClientInfo''"
  "serves Dhcpsrv2ServerHandle 11 ''GetMClientInfo''"
  "serves Dhcpsrv2ServerHandle 12 ''DeleteMClientInfo''"
  "serves Dhcpsrv2ServerHandle 13 ''EnumMScopeClients''"
  "serves Dhcpsrv2ServerHandle 14 ''CreateOptionV5''"
  "serves Dhcpsrv2ServerHandle 15 ''SetOptionInfoV5''"
  "serves Dhcpsrv2ServerHandle 16 ''GetOptionInfoV5''"
  "serves Dhcpsrv2ServerHandle 17 ''EnumOptionsV5''"
  "serves Dhcpsrv2ServerHandle 18 ''RemoveOptionV5''"
  "serves Dhcpsrv2ServerHandle 19 ''SetOptionValueV5''"
  "serves Dhcpsrv2ServerHandle 20 ''SetOptionValuesV5''"
  "serves Dhcpsrv2ServerHandle 21 ''GetOptionValueV5''"
  "serves Dhcpsrv2ServerHandle 22 ''EnumOptionValuesV5''"
  "serves Dhcpsrv2ServerHandle 23 ''RemoveOptionValueV5''"
  "serves Dhcpsrv2ServerHandle 24 ''CreateClass''"
  "serves Dhcpsrv2ServerHandle 25 ''ModifyClass''"
  "serves Dhcpsrv2ServerHandle 26 ''DeleteClass''"
  "serves Dhcpsrv2ServerHandle 27 ''GetClassInfo''"
  "serves Dhcpsrv2ServerHandle 28 ''EnumClasses''"
  "serves Dhcpsrv2ServerHandle 29 ''GetAllOptions''"
  "serves Dhcpsrv2ServerHandle 30 ''GetAllOptionValues''"
  "serves Dhcpsrv2ServerHandle 31 ''GetMCastMIBInfo''"
  "serves Dhcpsrv2ServerHandle 32 ''AuditLogSetParams''"
  "serves Dhcpsrv2ServerHandle 33 ''AuditLogGetParams''"
  "serves Dhcpsrv2ServerHandle 34 ''ServerQueryAttribute''"
  "serves Dhcpsrv2ServerHandle 35 ''ServerQueryAttributes''"
  "serves Dhcpsrv2ServerHandle 36 ''ServerRedoAuthorization''"
  "serves Dhcpsrv2ServerHandle 37 ''AddSubnetElementV5''"
  "serves Dhcpsrv2ServerHandle 38 ''EnumSubnetElementsV5''"
  "serves Dhcpsrv2ServerHandle 39 ''RemoveSubnetElementV5''"
  "serves Dhcpsrv2ServerHandle 40 ''GetServerBindingInfo''"
  "serves Dhcpsrv2ServerHandle 41 ''SetServerBindingInfo''"
  "serves Dhcpsrv2ServerHandle 42 ''QueryDNSRegCredentials''"
  "serves Dhcpsrv2ServerHandle 43 ''SetDNSRegCredentials''"
  "serves Dhcpsrv2ServerHandle 44 ''BackupDatabase''"
  "serves Dhcpsrv2ServerHandle 45 ''RestoreDatabase''"
  "serves Dhcpsrv2ServerHandle 46 ''GetServerSpecificStrings''"
  "serves Dhcpsrv2ServerHandle 47 ''CreateOptionV6''"
  "serves Dhcpsrv2ServerHandle 48 ''SetOptionInfoV6''"
  "serves Dhcpsrv2ServerHandle 49 ''GetOptionInfoV6''"
  "serves Dhcpsrv2ServerHandle 50 ''EnumOptionsV6''"
  "serves Dhcpsrv2ServerHandle 51 ''RemoveOptionV6''"
  "serves Dhcpsrv2ServerHandle 52 ''SetOptionValueV6''"
  "serves Dhcpsrv2ServerHandle 53 ''EnumOptionValuesV6''"
  "serves Dhcpsrv2ServerHandle 54 ''RemoveOptionValueV6''"
  "serves Dhcpsrv2ServerHandle 55 ''GetAllOptionsV6''"
  "serves Dhcpsrv2ServerHandle 56 ''GetAllOptionValuesV6''"
  "serves Dhcpsrv2ServerHandle 57 ''CreateSubnetV6''"
  "serves Dhcpsrv2ServerHandle 58 ''EnumSubnetsV6''"
  "serves Dhcpsrv2ServerHandle 59 ''AddSubnetElementV6''"
  "serves Dhcpsrv2ServerHandle 60 ''EnumSubnetElementsV6''"
  "serves Dhcpsrv2ServerHandle 61 ''RemoveSubnetElementV6''"
  "serves Dhcpsrv2ServerHandle 62 ''DeleteSubnetV6''"
  "serves Dhcpsrv2ServerHandle 63 ''GetSubnetInfoV6''"
  "serves Dhcpsrv2ServerHandle 64 ''EnumSubnetClientsV6''"
  "serves Dhcpsrv2ServerHandle 65 ''ServerSetConfigV6''"
  "serves Dhcpsrv2ServerHandle 66 ''ServerGetConfigV6''"
  "serves Dhcpsrv2ServerHandle 67 ''SetSubnetInfoV6''"
  "serves Dhcpsrv2ServerHandle 68 ''GetMIBInfoV6''"
  "serves Dhcpsrv2ServerHandle 69 ''GetServerBindingInfoV6''"
  "serves Dhcpsrv2ServerHandle 70 ''SetServerBindingInfoV6''"
  "serves Dhcpsrv2ServerHandle 71 ''SetClientInfoV6''"
  "serves Dhcpsrv2ServerHandle 72 ''GetClientInfoV6''"
  "serves Dhcpsrv2ServerHandle 73 ''DeleteClientInfoV6''"
  "serves Dhcpsrv2ServerHandle 74 ''CreateClassV6''"
  "serves Dhcpsrv2ServerHandle 75 ''ModifyClassV6''"
  "serves Dhcpsrv2ServerHandle 76 ''DeleteClassV6''"
  "serves Dhcpsrv2ServerHandle 77 ''EnumClassesV6''"
  "serves Dhcpsrv2ServerHandle 78 ''GetOptionValueV6''"
  "serves Dhcpsrv2ServerHandle 79 ''SetSubnetDelayOffer''"
  "serves Dhcpsrv2ServerHandle 80 ''GetSubnetDelayOffer''"
  "serves Dhcpsrv2ServerHandle 81 ''GetMIBInfoV5''"
  "serves Dhcpsrv2ServerHandle 82 ''AddFilterV4''"
  "serves Dhcpsrv2ServerHandle 83 ''DeleteFilterV4''"
  "serves Dhcpsrv2ServerHandle 84 ''SetFilterV4''"
  "serves Dhcpsrv2ServerHandle 85 ''GetFilterV4''"
  "serves Dhcpsrv2ServerHandle 86 ''EnumFilterV4''"
  "serves Dhcpsrv2ServerHandle 87 ''SetDNSRegCredentialsV5''"
  "serves Dhcpsrv2ServerHandle 88 ''EnumSubnetClientsFilterStatusInfo''"
  "serves Dhcpsrv2ServerHandle 89 ''FailoverCreateRelationshipV4''"
  "serves Dhcpsrv2ServerHandle 90 ''FailoverSetRelationshipV4''"
  "serves Dhcpsrv2ServerHandle 91 ''FailoverDeleteRelationshipV4''"
  "serves Dhcpsrv2ServerHandle 92 ''FailoverGetRelationshipV4''"
  "serves Dhcpsrv2ServerHandle 93 ''FailoverEnumRelationshipV4''"
  "serves Dhcpsrv2ServerHandle 94 ''FailoverAddScopeToRelationshipV4''"
  "serves Dhcpsrv2ServerHandle 95 ''FailoverDeleteScopeFromRelationshipV4''"
  "serves Dhcpsrv2ServerHandle 96 ''FailoverGetScopeRelationshipV4''"
  "serves Dhcpsrv2ServerHandle 97 ''FailoverGetScopeStatisticsV4''"
  "serves Dhcpsrv2ServerHandle 98 ''FailoverGetClientInfoV4''"
  "serves Dhcpsrv2ServerHandle 99 ''FailoverGetSystemTimeV4''"
  "serves Dhcpsrv2ServerHandle 100 ''FailoverTriggerAddrAllocationV4''"
  "serves Dhcpsrv2ServerHandle 101 ''SetOptionValueV4''"
  "serves Dhcpsrv2ServerHandle 102 ''SetOptionValuesV4''"
  "serves Dhcpsrv2ServerHandle 103 ''GetOptionValueV4''"
  "serves Dhcpsrv2ServerHandle 104 ''RemoveOptionValueV4''"
  "serves Dhcpsrv2ServerHandle 105 ''GetAllOptionValuesV4''"
  "serves Dhcpsrv2ServerHandle 106 ''QueryPolicyEnforcementV4''"
  "serves Dhcpsrv2ServerHandle 107 ''SetPolicyEnforcementV4''"
  "serves Dhcpsrv2ServerHandle 108 ''CreatePolicyV4''"
  "serves Dhcpsrv2ServerHandle 109 ''GetPolicyV4''"
  "serves Dhcpsrv2ServerHandle 110 ''SetPolicyV4''"
  "serves Dhcpsrv2ServerHandle 111 ''DeletePolicyV4''"
  "serves Dhcpsrv2ServerHandle 112 ''EnumPoliciesV4''"
  "serves Dhcpsrv2ServerHandle 113 ''AddPolicyRangeV4''"
  "serves Dhcpsrv2ServerHandle 114 ''RemovePolicyRangeV4''"
  "serves Dhcpsrv2ServerHandle 115 ''EnumSubnetClientsV4''"
  "serves Dhcpsrv2ServerHandle 116 ''SetStatelessStoreParamsV6''"
  "serves Dhcpsrv2ServerHandle 117 ''GetStatelessStoreParamsV6''"
  "serves Dhcpsrv2ServerHandle 118 ''GetStatelessStatisticsV6''"
  "serves Dhcpsrv2ServerHandle 119 ''EnumSubnetReservationsV4''"
  "serves Dhcpsrv2ServerHandle 120 ''GetFreeIPAddressV4''"
  "serves Dhcpsrv2ServerHandle 121 ''GetFreeIPAddressV6''"
  "serves Dhcpsrv2ServerHandle 122 ''CreateClientInfoV4''"
  "serves Dhcpsrv2ServerHandle 123 ''GetClientInfoV4''"
  "serves Dhcpsrv2ServerHandle 124 ''CreateClientInfoV6''"
  "serves Dhcpsrv2ServerHandle 125 ''FailoverGetAddressStatusV4''"
  "serves Dhcpsrv2ServerHandle 126 ''CreatePolicyExV4''"
  "serves Dhcpsrv2ServerHandle 127 ''GetPolicyExV4''"
  "serves Dhcpsrv2ServerHandle 128 ''SetPolicyExV4''"
  "serves Dhcpsrv2ServerHandle 129 ''EnumPoliciesExV4''"
  "serves Dhcpsrv2ServerHandle 130 ''EnumSubnetClientsExV4''"
  "serves Dhcpsrv2ServerHandle 131 ''CreateClientInfoExV4''"
  "serves Dhcpsrv2ServerHandle 132 ''GetClientInfoExV4''"
  by (simp_all add: serves_def Dhcpsrv2ServerHandle_def)

lemma Dhcpsrv2_serves:
  assumes "opNum \<in> {0..132}"
  shows "\<exists>m. serves Dhcpsrv2ServerHandle opNum m"
proof -
  have "\<forall>k\<in>set ([0..132]). \<exists>m. serves Dhcpsrv2ServerHandle k m"
    by (simp add: upto_rec1 del: set_upto) ((intro conjI exI allI)?, (rule Dhcpsrv2_cases)+)
  then have "\<forall>k\<in>{0..132}. \<exists>m. serves Dhcpsrv2ServerHandle k m"
    by (simp only: set_append set_upto)
  moreover from assms have "opNum \<in> {0..132}"
    by auto
  ultimately show ?thesis
    by blast
qed

lemma Dhcpsrv2_other:
  assumes "opNum \<notin> {0..132}"
  shows "Dhcpsrv2ServerHandle cdc ctx srv opNum w = ((None, None), w)"
proof -
  from assms consider "opNum < 0" | "132 < opNum"
    by fastforce
  then show ?thesis
    by cases (simp_all add: Dhcpsrv2ServerHandle_def)
qed

lemmas stub_serves =
  WindowsShutdown_serves ServiceSAN_serves AppHostPropertyCollection_serves
  AppHostPathMapper_serves AppHostElementCollection_serves WAMAdmin_serves
  DataFactory3_serves FileScreenTemplate_serves VDiskProvider_serves CatalogUtils2_serves
  Nspi_serves Dhcpsrv2_serves

lemmas stub_other =
  WindowsShutdown_other ServiceSAN_other AppHostPropertyCollection_other
  AppHostPathMapper_other AppHostElementCollection_other WAMAdmin_other DataFactory3_other
  FileScreenTemplate_other VDiskProvider_other CatalogUtils2_other Nspi_other
  Dhcpsrv2_other

lemmas stub_base =
  ServiceSAN_base AppHostPropertyCollection_base AppHostPathMapper_base
  AppHostElementCollection_base WAMAdmin_base DataFactory3_base FileScreenTemplate_base
  VDiskProvider_base CatalogUtils2_base

section \<open>All stubs\<close>

lemma stubs_mem:
  "((\<lambda>base. WindowsShutdownServerHandle), None, {0, 1}) \<in> set stubs"
  "(ServiceSANServerHandle, Some 3, {3, 4}) \<in> set stubs"
  "(AppHostPropertyCollectionServerHandle, Some 3, {3, 4}) \<in> set stubs"
  "(AppHostPathMapperServerHandle, Some 3, {3}) \<in> set stubs"
  "(AppHostElementCollectionServerHandle, Some 3, {3..9}) \<in> set stubs"
  "(WAMAdminServerHandle, Some 3, {3..8}) \<in> set stubs"
  "(DataFactory3ServerHandle, Some 9, {9, 10}) \<in> set stubs"
  "(FileScreenTemplateServerHandle, Some 18, {18..21}) \<in> set stubs"
  "(VDiskProviderServerHandle, Some 3, {3..7}) \<in> set stubs"
  "(CatalogUtils2ServerHandle, Some 3, {3..11}) \<in> set stubs"
  "((\<lambda>base. NspiServerHandle), None, {0..14} \<union> {16..20}) \<in> set stubs"
  "((\<lambda>base. Dhcpsrv2ServerHandle), None, {0..132}) \<in> set stubs"
  by (simp_all add: stubs_def)

lemma stubs_cases_own:
  assumes "(stub, first, cases) \<in> set stubs"
  shows "cases \<subseteq> own first"
  using assms unfolding stubs_def by auto

lemma stubs_serves:
  assumes "(stub, first, cases) \<in> set stubs" and "opNum \<in> cases"
  shows "\<exists>m. \<forall>base. serves (stub base) opNum m"
  using assms unfolding stubs_def
  apply (simp del: Un_iff)
  apply (elim disjE conjE; hypsubst)
  apply (simp_all only: simp_thms)
  apply (rule stub_serves, assumption)+
  done

lemma stubs_other:
  assumes "(stub, first, cases) \<in> set stubs" and "opNum \<in> own first" and "opNum \<notin> cases"
  shows "stub base cdc ctx srv opNum w = ((None, None), w)"
  using assms unfolding stubs_def
  apply (simp del: Un_iff)
  apply (elim disjE conjE; hypsubst)
  apply (simp_all only: own.simps atLeast_iff)
  apply (rule stub_other, assumption+)+
  done

lemma stubs_base:
  assumes "(stub, first, cases) \<in> set stubs" and "first = Some b" and "opNum < b"
  shows "stub base cdc ctx srv opNum w = base ctx srv opNum w"
  using assms unfolding stubs_def
  apply simp
  apply (elim disjE conjE; hypsubst)
  apply (simp_all add: stub_base)
  done

lemma unknown_silent:
  assumes "(stub, first, cases) \<in> set stubs"
    and "opNum \<notin> cases"
    and "opNum \<in> own first \<or> base ctx srv opNum w = ((None, None), w)"
  shows "stub base cdc ctx srv opNum w = ((None, None), w)"
proof (cases "opNum \<in> own first")
  case True
  with assms(1,2) show ?thesis
    by (simp add: stubs_other)
next
  case False
  then obtain b where "first = Some b" and "opNum < b"
    by (cases first) auto
  with assms(1) have "stub base cdc ctx srv opNum w = base ctx srv opNum w"
    by (rule stubs_base)
  with assms(3) False show ?thesis
    by simp
qed

lemma stubs_table:
  fixes stub :: "('ctx, 'rd, 'st, 'req, 'resp, 'op, 'e, 'z) base_handle \<Rightarrow>
                  ('ctx, 'rd, 'st, 'req, 'resp, 'op, 'e, 'z) handle"
  assumes mem: "(stub, first, cases) \<in> set stubs"
  shows "opNum \<in> cases \<Longrightarrow> \<exists>!m. \<forall>base. serves (stub base) opNum m"
    and "opNum \<notin> cases \<Longrightarrow> \<nexists>m. \<forall>base. serves (stub base) opNum m"
proof -
  assume "opNum \<in> cases"
  with mem obtain m where m: "\<forall>base. serves (stub base) opNum m"
    using stubs_serves by blast
  show "\<exists>!m. \<forall>base. serves (stub base) opNum m"
  proof (rule ex1I)
    show "\<forall>base. serves (stub base) opNum m"
      by (rule m)
  next
    fix m'
    assume "\<forall>base. serves (stub base) opNum m'"
    with m have "serves (stub undefined) opNum m'" and "serves (stub undefined) opNum m"
      by simp_all
    then show "m' = m"
      by (rule serves_unique)
  qed
next
  assume out: "opNum \<notin> cases"
  show "\<nexists>m. \<forall>base. serves (stub base) opNum m"
  proof
    assume "\<exists>m. \<forall>base. serves (stub base) opNum m"
    then obtain m where m: "\<And>base. serves (stub base) opNum m"
      by blast
    fix cdc :: "('ctx, 'rd, 'req, 'resp, 'op, 'e) codec" and ctx :: 'ctx
      and srv :: "('ctx, 'req, 'resp, 'e, 'st) server" and w :: "('rd, 'st, 'req, 'z) world_scheme"
    let ?silent = "\<lambda>ctx srv opNum w. ((None, None), w)"
    have "opNum \<in> own first \<or> ?silent ctx srv opNum w = ((None, None), w)"
      by simp
    with mem out have "stub ?silent cdc ctx srv opNum w = ((None, None), w)"
      by (rule unknown_silent)
    with serves_not_silent [OF m [of ?silent], of cdc ctx srv w] show False
      by simp
  qed
qed

section \<open>The shape of a result\<close>

text \<open>
  C1 says that every call of a stub returns either an operation with a \<^verbatim>\<open>nil\<close> error
  or a \<^verbatim>\<open>nil\<close> operation with a non-nil error. \<^verbatim>\<open>WindowsShutdownServerHandle\<close> at
  operation number 2 returns \<^verbatim>\<open>(nil, nil)\<close>, which is neither: the switch has the cases
  0 and 1 only and the function ends with \<^verbatim>\<open>return nil, nil\<close>.
\<close>

theorem response_or_error_counterexample:
  "fst (WindowsShutdownServerHandle example_codec () example_server 2 (example_world [7])) =
     (None, None)
   \<and> \<not> (fst (fst (WindowsShutdownServerHandle example_codec () example_server 2
                 (example_world [7]))) \<noteq> None \<and>
          snd (fst (WindowsShutdownServerHandle example_codec () example_server 2
                 (example_world [7]))) = None)
   \<and> \<not> (fst (fst (WindowsShutdownServerHandle example_codec () example_server 2
                 (example_world [7]))) = None \<and>
          snd (fst (WindowsShutdownServerHandle example_codec () example_server 2
                 (example_world [7]))) \<noteq> None)"
  by (simp add: WindowsShutdownServerHandle_def)

text \<open>
  C1 as amended. A call that reaches a stub's own switch has one of three results:
  \<^verbatim>\<open>(nil, nil)\<close> when the operation number has no method case; \<^verbatim>\<open>(nil, e)\<close> with \<open>e\<close>
  the non-nil error of \<^verbatim>\<open>UnmarshalNDR\<close> when decoding failed; and otherwise
  \<^verbatim>\<open>(resp.xxx_ToOp(ctx), err)\<close> for the \<^verbatim>\<open>(resp, err)\<close> that the handler returned. In
  the last case the error is \<^verbatim>\<open>nil\<close> exactly when the handler's is, and the converted
  response is returned beside a non-nil handler error too.
\<close>

theorem result_shapes:
  assumes "(stub, first, cases) \<in> set stubs" and "opNum \<in> own first"
  shows "opNum \<notin> cases \<and> fst (stub base cdc ctx srv opNum w) = (None, None)
       \<or> (\<exists>m e req r'. serves (stub base) opNum m \<and>
             UnmarshalNDR cdc m ctx (reader w) = (Some e, req, r') \<and>
             fst (stub base cdc ctx srv opNum w) = (None, Some e))
       \<or> (\<exists>m req r'. serves (stub base) opNum m \<and>
             UnmarshalNDR cdc m ctx (reader w) = (None, req, r') \<and>
             fst (stub base cdc ctx srv opNum w) =
               (xxx_ToOp cdc m ctx (fst (fst (srv m ctx req (server_state w)))),
                snd (fst (srv m ctx req (server_state w)))))"
proof (cases "opNum \<in> cases")
  case False
  with assms show ?thesis
    by (simp add: stubs_other)
next
  case True
  with assms(1) obtain m where m: "serves (stub base) opNum m"
    using stubs_serves by blast
  then have eq: "stub base cdc ctx srv opNum w = decode_and_call cdc ctx srv m w"
    by (simp add: serves_def)
  obtain err req r' where u: "UnmarshalNDR cdc m ctx (reader w) = (err, req, r')"
    by (cases "UnmarshalNDR cdc m ctx (reader w)")
  show ?thesis
  proof (cases err)
    case None
    with u have "fst (stub base cdc ctx srv opNum w) =
        (xxx_ToOp cdc m ctx (fst (fst (srv m ctx req (server_state w)))),
         snd (fst (srv m ctx req (server_state w))))"
      by (simp add: eq decode_and_call_ok)
    with m u None show ?thesis
      by blast
  next
    case (Some e)
    with u have "fst (stub base cdc ctx srv opNum w) = (None, Some e)"
      by (simp add: eq decode_and_call_fail)
    with m u Some show ?thesis
      by blast
  qed
qed

theorem result_shapes_witness:
  "((\<lambda>base. WindowsShutdownServerHandle), None, {0, 1}) \<in> set stubs
   \<and> (0::int) \<in> own None
   \<and> UnmarshalNDR example_codec ''InitiateShutdown'' () (reader (example_world [0])) = (None, 0, [])
   \<and> fst (fst (example_server ''InitiateShutdown'' () 0 (server_state (example_world [0])))) = 0
   \<and> fst (WindowsShutdownServerHandle example_codec () example_server 0 (example_world [0])) =
       (Some 0, Some ''denied'')"
proof -
  let ?r = "fst (WindowsShutdownServerHandle example_codec () example_server 0 (example_world [0]))"
  have u: "UnmarshalNDR example_codec m () (reader (example_world [0])) = (None, 0, [])" for m
    by (simp add: example_codec_def example_world_def)
  have h: "example_server m () 0 (server_state (example_world [0])) = ((0, Some ''denied''), 1)" for m
    by (simp add: example_server_def example_world_def)
  have t: "xxx_ToOp example_codec m () x = Some x" for m x
    by (simp add: example_codec_def)
  have "(0::int) \<in> own None"
    by simp
  note result_shapes [OF stubs_mem(1) this, where cdc = example_codec and ctx = "()"
      and srv = example_server and w = "example_world [0]"]
  then have "?r = (Some 0, Some ''denied'')"
    by (elim disjE conjE exE) (simp_all add: u h t)
  with u h show ?thesis
    by (simp add: stubs_mem)
qed


section \<open>Operation numbers without a case\<close>

text \<open>
  C2. An operation number that has no method case gets \<^verbatim>\<open>(nil, nil)\<close>: a \<^verbatim>\<open>nil\<close>
  operation and a \<^verbatim>\<open>nil\<close> error, so no "unknown method" error. The state is the one
  before the call, so nothing was read and no handler ran. This holds for every stub at
  every operation number that reaches its own switch. A derived stub hands the numbers
  below its bound to the base stub and returns what that returns, so it returns
  \<^verbatim>\<open>(nil, nil)\<close> there whenever the base stub does.
\<close>

theorem unknown_opnum_nil_nil:
  assumes "(stub, first, cases) \<in> set stubs"
    and "opNum \<notin> cases"
    and "opNum \<in> own first \<or> base ctx srv opNum w = ((None, None), w)"
  shows "stub base cdc ctx srv opNum w = ((None, None), w)"
  using assms by (rule unknown_silent)

theorem unknown_opnum_nil_nil_witness:
  "((\<lambda>base. Dhcpsrv2ServerHandle), None, {0..132}) \<in> set stubs
   \<and> (133::int) \<notin> {0..132}
   \<and> (133::int) \<in> own None
   \<and> Dhcpsrv2ServerHandle example_codec () example_server 133 (example_world [7]) =
       ((None, None), example_world [7])"
  using unknown_opnum_nil_nil [OF stubs_mem(12), of 133 example_base "()" example_server
      "example_world [7]" example_codec]
  by (simp add: stubs_mem)

section \<open>Operation numbers with a case\<close>

text \<open>
  C3. At an operation number with a method case, when \<^verbatim>\<open>UnmarshalNDR\<close> of that
  method's request returns a non-nil error \<open>e\<close>, the stub returns \<^verbatim>\<open>(nil, e)\<close>. The
  state afterwards is the one before with the reader as that single decoding left it and
  one \<open>Unmarshal\<close> event added: the handler was not called (no \<open>Handler\<close> event, the
  implementation's state is untouched) and decoding was attempted once.
\<close>

theorem decode_error_returned:
  assumes "(stub, first, cases) \<in> set stubs" and "opNum \<in> cases"
  shows "\<exists>m. (\<forall>base. serves (stub base) opNum m) \<and>
           (\<forall>base cdc ctx srv w e req r'.
              UnmarshalNDR cdc m ctx (reader w) = (Some e, req, r') \<longrightarrow>
              stub base cdc ctx srv opNum w =
                ((None, Some e), w\<lparr>reader := r', events := events w @ [Unmarshal m]\<rparr>))"
proof -
  from assms obtain m where m: "\<forall>base. serves (stub base) opNum m"
    using stubs_serves by blast
  then have "stub base cdc ctx srv opNum w = decode_and_call cdc ctx srv m w" for base cdc ctx srv w
    by (simp add: serves_def)
  then have "\<forall>base cdc ctx srv w e req r'.
      UnmarshalNDR cdc m ctx (reader w) = (Some e, req, r') \<longrightarrow>
      stub base cdc ctx srv opNum w =
        ((None, Some e), w\<lparr>reader := r', events := events w @ [Unmarshal m]\<rparr>)"
    by (simp add: decode_and_call_fail)
  with m show ?thesis
    by blast
qed

theorem decode_error_returned_witness:
  "(CatalogUtils2ServerHandle, Some 3, {3..11}) \<in> set stubs
   \<and> (3::int) \<in> {3..11}
   \<and> UnmarshalNDR example_codec ''CopyConglomerations'' () (reader (example_world [])) =
       (Some ''EOF'', 0, [])
   \<and> CatalogUtils2ServerHandle example_base example_codec () example_server 3 (example_world []) =
       ((None, Some ''EOF''),
        \<lparr>reader = [], server_state = 0, events = [Unmarshal ''CopyConglomerations'']\<rparr>)"
proof -
  have "\<exists>m. (\<forall>base :: example_base. serves (CatalogUtils2ServerHandle base) 3 m) \<and>
          (\<forall>(base :: example_base) cdc ctx srv w e req r'.
             UnmarshalNDR cdc m ctx (reader w) = (Some e, req, r') \<longrightarrow>
             CatalogUtils2ServerHandle base cdc ctx srv 3 w =
               ((None, Some e), w\<lparr>reader := r', events := events w @ [Unmarshal m]\<rparr>))"
    by (rule decode_error_returned [OF stubs_mem(10)]) simp
  then obtain m where
    s: "serves (CatalogUtils2ServerHandle example_base) 3 m" and
    f: "\<And>cdc ctx srv w e req r'.
          UnmarshalNDR cdc m ctx (reader w) = (Some e, req, r') \<Longrightarrow>
          CatalogUtils2ServerHandle example_base cdc ctx srv 3 w =
            ((None, Some e), w\<lparr>reader := r', events := events w @ [Unmarshal m]\<rparr>)"
    by blast
  from s CatalogUtils2_cases(1) have m: "m = ''CopyConglomerations''"
    by (rule serves_unique)
  have u: "UnmarshalNDR example_codec ''CopyConglomerations'' () (reader (example_world [])) =
      (Some ''EOF'', 0, [])"
    by (simp add: example_codec_def example_world_def)
  from f [of example_codec "()" "example_world []" "''EOF''" 0 "[]" example_server] u m
  have "CatalogUtils2ServerHandle example_base example_codec () example_server 3 (example_world []) =
      ((None, Some ''EOF''),
       (example_world [])\<lparr>reader := [],
         events := events (example_world []) @ [Unmarshal ''CopyConglomerations'']\<rparr>)"
    by simp
  with u show ?thesis
    by (simp add: stubs_mem example_world_def)
qed

text \<open>
  C4. At an operation number with a method case, when the request decodes (the error of
  \<^verbatim>\<open>UnmarshalNDR\<close> is \<^verbatim>\<open>nil\<close>), the error the stub returns is the error the
  handler method returned for the decoded request, as it is.
\<close>

theorem handler_error_verbatim:
  assumes "(stub, first, cases) \<in> set stubs" and "opNum \<in> cases"
  shows "\<exists>m. (\<forall>base. serves (stub base) opNum m) \<and>
           (\<forall>base cdc ctx srv w req r'.
              UnmarshalNDR cdc m ctx (reader w) = (None, req, r') \<longrightarrow>
              snd (fst (stub base cdc ctx srv opNum w)) =
                snd (fst (srv m ctx req (server_state w))))"
proof -
  from assms obtain m where m: "\<forall>base. serves (stub base) opNum m"
    using stubs_serves by blast
  then have "stub base cdc ctx srv opNum w = decode_and_call cdc ctx srv m w" for base cdc ctx srv w
    by (simp add: serves_def)
  then have "\<forall>base cdc ctx srv w req r'.
      UnmarshalNDR cdc m ctx (reader w) = (None, req, r') \<longrightarrow>
      snd (fst (stub base cdc ctx srv opNum w)) = snd (fst (srv m ctx req (server_state w)))"
    by (simp add: decode_and_call_ok)
  with m show ?thesis
    by blast
qed

theorem handler_error_verbatim_witness:
  "((\<lambda>base. NspiServerHandle), None, {0..14} \<union> {16..20}) \<in> set stubs
   \<and> (7::int) \<in> {0..14} \<union> {16..20}
   \<and> UnmarshalNDR example_codec ''DNToMID'' () (reader (example_world [0])) = (None, 0, [])
   \<and> snd (fst (example_server ''DNToMID'' () 0 (server_state (example_world [0])))) =
       Some ''denied''
   \<and> snd (fst (NspiServerHandle example_codec () example_server 7 (example_world [0]))) =
       Some ''denied''"
proof -
  have "\<exists>m. (\<forall>base :: example_base. serves (NspiServerHandle :: example_handle) 7 m) \<and>
          (\<forall>(base :: example_base) cdc ctx srv w req r'.
             UnmarshalNDR cdc m ctx (reader w) = (None, req, r') \<longrightarrow>
             snd (fst ((NspiServerHandle :: example_handle) cdc ctx srv 7 w)) =
               snd (fst (srv m ctx req (server_state w))))"
    by (rule handler_error_verbatim [OF stubs_mem(11)]) simp
  then obtain m where
    s: "serves (NspiServerHandle :: example_handle) 7 m" and
    f: "\<And>cdc ctx srv w req r'.
          UnmarshalNDR cdc m ctx (reader w) = (None, req, r') \<Longrightarrow>
          snd (fst ((NspiServerHandle :: example_handle) cdc ctx srv 7 w)) =
            snd (fst (srv m ctx req (server_state w)))"
    by blast
  from s Nspi_cases(8) have m: "m = ''DNToMID''"
    by (rule serves_unique)
  have u: "UnmarshalNDR example_codec ''DNToMID'' () (reader (example_world [0])) = (None, 0, [])"
    by (simp add: example_codec_def example_world_def)
  have h: "snd (fst (example_server ''DNToMID'' () 0 (server_state (example_world [0])))) =
      Some ''denied''"
    by (simp add: example_server_def)
  from f [of example_codec "()" "example_world [0]" 0 "[]" example_server] u m
  have "snd (fst (NspiServerHandle example_codec () example_server 7 (example_world [0]))) =
      snd (fst (example_server ''DNToMID'' () 0 (server_state (example_world [0]))))"
    by simp
  with u h show ?thesis
    by (simp add: stubs_mem)
qed

text \<open>
  C5. At an operation number with a method case, when the request decodes, the stub calls
  the handler of that one method once with the decoded request: the state afterwards is
  the one before with the reader as the decoding left it, the implementation's state as
  that one call left it, and the two events \<open>Unmarshal m\<close>, \<open>Handler m req\<close> added. The
  operation it returns is \<^verbatim>\<open>xxx_ToOp\<close> of the response of that call.
\<close>

theorem one_call_one_response:
  assumes "(stub, first, cases) \<in> set stubs" and "opNum \<in> cases"
  shows "\<exists>m. (\<forall>base. serves (stub base) opNum m) \<and>
           (\<forall>base cdc ctx srv w req r'.
              UnmarshalNDR cdc m ctx (reader w) = (None, req, r') \<longrightarrow>
              fst (fst (stub base cdc ctx srv opNum w)) =
                xxx_ToOp cdc m ctx (fst (fst (srv m ctx req (server_state w)))) \<and>
              snd (stub base cdc ctx srv opNum w) =
                w\<lparr>reader := r', server_state := snd (srv m ctx req (server_state w)),
                  events := events w @ [Unmarshal m, Handler m req]\<rparr>)"
proof -
  from assms obtain m where m: "\<forall>base. serves (stub base) opNum m"
    using stubs_serves by blast
  then have "stub base cdc ctx srv opNum w = decode_and_call cdc ctx srv m w" for base cdc ctx srv w
    by (simp add: serves_def)
  then have "\<forall>base cdc ctx srv w req r'.
      UnmarshalNDR cdc m ctx (reader w) = (None, req, r') \<longrightarrow>
      fst (fst (stub base cdc ctx srv opNum w)) =
        xxx_ToOp cdc m ctx (fst (fst (srv m ctx req (server_state w)))) \<and>
      snd (stub base cdc ctx srv opNum w) =
        w\<lparr>reader := r', server_state := snd (srv m ctx req (server_state w)),
          events := events w @ [Unmarshal m, Handler m req]\<rparr>"
    by (simp add: decode_and_call_ok)
  with m show ?thesis
    by blast
qed

theorem one_call_one_response_witness:
  "(AppHostPropertyCollectionServerHandle, Some 3, {3, 4}) \<in> set stubs
   \<and> (3::int) \<in> {3, 4}
   \<and> UnmarshalNDR example_codec ''GetCount'' () (reader (example_world [5, 6])) = (None, 5, [6])
   \<and> example_server ''GetCount'' () 5 (server_state (example_world [5, 6])) = ((5, None), 1)
   \<and> fst (fst (AppHostPropertyCollectionServerHandle example_base example_codec () example_server 3
         (example_world [5, 6]))) = Some 5
   \<and> snd (AppHostPropertyCollectionServerHandle example_base example_codec () example_server 3
         (example_world [5, 6])) =
       \<lparr>reader = [6], server_state = 1,
         events = [Unmarshal ''GetCount'', Handler ''GetCount'' 5]\<rparr>"
proof -
  have "\<exists>m. (\<forall>base :: example_base. serves (AppHostPropertyCollectionServerHandle base) 3 m) \<and>
          (\<forall>(base :: example_base) cdc ctx srv w req r'.
             UnmarshalNDR cdc m ctx (reader w) = (None, req, r') \<longrightarrow>
             fst (fst (AppHostPropertyCollectionServerHandle base cdc ctx srv 3 w)) =
               xxx_ToOp cdc m ctx (fst (fst (srv m ctx req (server_state w)))) \<and>
             snd (AppHostPropertyCollectionServerHandle base cdc ctx srv 3 w) =
               w\<lparr>reader := r', server_state := snd (srv m ctx req (server_state w)),
                 events := events w @ [Unmarshal m, Handler m req]\<rparr>)"
    by (rule one_call_one_response [OF stubs_mem(3)]) simp
  then obtain m where
    s: "serves (AppHostPropertyCollectionServerHandle example_base) 3 m" and
    f: "\<And>cdc ctx srv w req r'.
          UnmarshalNDR cdc m ctx (reader w) = (None, req, r') \<Longrightarrow>
          fst (fst (AppHostPropertyCollectionServerHandle example_base cdc ctx srv 3 w)) =
            xxx_ToOp cdc m ctx (fst (fst (srv m ctx req (server_state w)))) \<and>
          snd (AppHostPropertyCollectionServerHandle example_base cdc ctx srv 3 w) =
            w\<lparr>reader := r', server_state := snd (srv m ctx req (server_state w)),
              events := events w @ [Unmarshal m, Handler m req]\<rparr>"
    by blast
  from s AppHostPropertyCollection_cases(1) have m: "m = ''GetCount''"
    by (rule serves_unique)
  have u: "UnmarshalNDR example_codec ''GetCount'' () (reader (example_world [5, 6])) =
      (None, 5, [6])"
    by (simp add: example_codec_def example_world_def)
  have h: "example_server ''GetCount'' () 5 (server_state (example_world [5, 6])) = ((5, None), 1)"
    by (simp add: example_server_def example_world_def)
  from f [of example_codec "()" "example_world [5, 6]" 5 "[6]" example_server] u m
  have "fst (fst (AppHostPropertyCollectionServerHandle example_base example_codec () example_server
          3 (example_world [5, 6]))) =
        xxx_ToOp example_codec ''GetCount'' ()
          (fst (fst (example_server ''GetCount'' () 5 (server_state (example_world [5, 6])))))"
    and "snd (AppHostPropertyCollectionServerHandle example_base example_codec () example_server
          3 (example_world [5, 6])) =
        (example_world [5, 6])\<lparr>reader := [6],
          server_state := snd (example_server ''GetCount'' () 5 (server_state (example_world [5, 6]))),
          events := events (example_world [5, 6]) @ [Unmarshal ''GetCount'', Handler ''GetCount'' 5]\<rparr>"
    by simp_all
  moreover have "xxx_ToOp example_codec ''GetCount'' () 5 = Some 5"
    by (simp add: example_codec_def)
  ultimately show ?thesis
    using u h by (simp add: stubs_mem example_world_def)
qed

section \<open>The operation number table\<close>

text \<open>
  C6. Every stub has a fixed set of operation numbers with a method case, and on that set
  the stub serves exactly one method per number (one request type and one handler, both
  named by the method): the method exists and no other method is served at that number.
  At a number outside the set the stub serves no method (below the bound of a derived stub
  the base stub decides what happens). For
  \<^verbatim>\<open>WindowsShutdownServerHandle\<close> the set is 0 and 1, with \<^verbatim>\<open>InitiateShutdown\<close> at 0
  and \<^verbatim>\<open>AbortShutdown\<close> at 1; for \<^verbatim>\<open>Dhcpsrv2ServerHandle\<close> it is 0 to 132.
\<close>

theorem opnum_table:
  "(\<forall>(stub, first, cases) \<in>
      set (stubs :: ('ctx, 'rd, 'st, 'req, 'resp, 'op, 'e, 'z) entry list).
    \<forall>opNum.
      (opNum \<in> cases \<longrightarrow> (\<exists>!m. \<forall>base. serves (stub base) opNum m)) \<and>
      (opNum \<notin> cases \<longrightarrow> (\<nexists>m. \<forall>base. serves (stub base) opNum m)))
   \<and> ((\<lambda>base. WindowsShutdownServerHandle), None, {0, 1}) \<in> set stubs
   \<and> serves WindowsShutdownServerHandle 0 ''InitiateShutdown''
   \<and> serves WindowsShutdownServerHandle 1 ''AbortShutdown''
   \<and> ((\<lambda>base. Dhcpsrv2ServerHandle), None, {0..132}) \<in> set stubs"
proof (intro conjI ballI)
  fix x :: "('ctx, 'rd, 'st, 'req, 'resp, 'op, 'e, 'z) entry"
  assume x: "x \<in> set stubs"
  obtain stub first cases where eq: "x = (stub, first, cases)"
    by (cases x)
  with x have "(stub, first, cases) \<in> set stubs"
    by simp
  then have "\<forall>opNum.
      (opNum \<in> cases \<longrightarrow> (\<exists>!m. \<forall>base. serves (stub base) opNum m)) \<and>
      (opNum \<notin> cases \<longrightarrow> (\<nexists>m. \<forall>base. serves (stub base) opNum m))"
    using stubs_table by blast
  with eq show "case x of (stub, first, cases) \<Rightarrow> \<forall>opNum.
      (opNum \<in> cases \<longrightarrow> (\<exists>!m. \<forall>base. serves (stub base) opNum m)) \<and>
      (opNum \<notin> cases \<longrightarrow> (\<nexists>m. \<forall>base. serves (stub base) opNum m))"
    by simp
qed (simp_all add: stubs_mem WindowsShutdown_cases)

theorem opnum_table_witness:
  "((\<lambda>base. Dhcpsrv2ServerHandle), None, {0..132}) \<in> set stubs
   \<and> (132::int) \<in> {0..132}
   \<and> serves (Dhcpsrv2ServerHandle :: example_handle) 132 ''GetClientInfoExV4''
   \<and> (\<exists>!m. serves (Dhcpsrv2ServerHandle :: example_handle) 132 m)
   \<and> (133::int) \<notin> {0..132}
   \<and> (\<nexists>m. serves (Dhcpsrv2ServerHandle :: example_handle) 133 m)"
proof -
  have "\<forall>opNum.
      (opNum \<in> {0..132} \<longrightarrow>
         (\<exists>!m. \<forall>base :: example_base. serves (Dhcpsrv2ServerHandle :: example_handle) opNum m)) \<and>
      (opNum \<notin> {0..132} \<longrightarrow>
         (\<nexists>m. \<forall>base :: example_base. serves (Dhcpsrv2ServerHandle :: example_handle) opNum m))"
    by (rule opnum_table [THEN conjunct1, THEN bspec, OF stubs_mem(12), unfolded prod.case])
  then have "\<exists>!m. serves (Dhcpsrv2ServerHandle :: example_handle) 132 m"
    and "\<nexists>m. serves (Dhcpsrv2ServerHandle :: example_handle) 133 m"
    by simp_all
  then show ?thesis
    by (simp add: stubs_mem Dhcpsrv2_cases)
qed

section \<open>Effects\<close>

text \<open>
  C7. A call that reaches a stub's own switch changes the state only by what
  \<^verbatim>\<open>UnmarshalNDR\<close> reads and what the one handler call does: the state afterwards is
  the state before, or the state before with the reader advanced by one decoding, or that
  with the implementation's state as one handler call left it (the log grows by the
  matching events). All other state, the \<open>more\<close> part, stays as it was. The result and
  the new reader and implementation state depend only on the operation number, the
  reader, the implementation and its state: two runs that agree on these agree on the
  outcome. (Below a derived stub's bound the effects are those of the base stub.)
\<close>

theorem reader_and_handler_effects_only:
  assumes "(stub, first, cases) \<in> set stubs" and "opNum \<in> own first"
  shows "(snd (stub base cdc ctx srv opNum w) = w \<or>
          (\<exists>m. serves (stub base) opNum m \<and>
             (case UnmarshalNDR cdc m ctx (reader w) of
                (err, req, r') \<Rightarrow>
                  snd (stub base cdc ctx srv opNum w) =
                    w\<lparr>reader := r', events := events w @ [Unmarshal m]\<rparr> \<or>
                  snd (stub base cdc ctx srv opNum w) =
                    w\<lparr>reader := r', server_state := snd (srv m ctx req (server_state w)),
                      events := events w @ [Unmarshal m, Handler m req]\<rparr>)))
       \<and> world.more (snd (stub base cdc ctx srv opNum w)) = world.more w
       \<and> (\<forall>w2. reader w2 = reader w \<and> server_state w2 = server_state w \<longrightarrow>
             fst (stub base cdc ctx srv opNum w2) = fst (stub base cdc ctx srv opNum w) \<and>
             reader (snd (stub base cdc ctx srv opNum w2)) =
               reader (snd (stub base cdc ctx srv opNum w)) \<and>
             server_state (snd (stub base cdc ctx srv opNum w2)) =
               server_state (snd (stub base cdc ctx srv opNum w)))"
proof (cases "opNum \<in> cases")
  case False
  with assms have "stub base cdc ctx srv opNum w' = ((None, None), w')" for w'
    by (simp add: stubs_other)
  then show ?thesis
    by simp
next
  case True
  with assms(1) obtain m where m: "serves (stub base) opNum m"
    using stubs_serves by blast
  then have eq: "stub base cdc ctx srv opNum w' = decode_and_call cdc ctx srv m w'" for w'
    by (simp add: serves_def)
  have "\<exists>m. serves (stub base) opNum m \<and>
          (case UnmarshalNDR cdc m ctx (reader w) of
             (err, req, r') \<Rightarrow>
               snd (stub base cdc ctx srv opNum w) =
                 w\<lparr>reader := r', events := events w @ [Unmarshal m]\<rparr> \<or>
               snd (stub base cdc ctx srv opNum w) =
                 w\<lparr>reader := r', server_state := snd (srv m ctx req (server_state w)),
                   events := events w @ [Unmarshal m, Handler m req]\<rparr>)"
    unfolding eq by (rule exI [of _ m], rule conjI [OF m], rule decode_and_call_frame)
  moreover have "world.more (snd (stub base cdc ctx srv opNum w)) = world.more w"
    unfolding eq by (rule decode_and_call_more)
  moreover have "\<forall>w2. reader w2 = reader w \<and> server_state w2 = server_state w \<longrightarrow>
      fst (stub base cdc ctx srv opNum w2) = fst (stub base cdc ctx srv opNum w) \<and>
      reader (snd (stub base cdc ctx srv opNum w2)) =
        reader (snd (stub base cdc ctx srv opNum w)) \<and>
      server_state (snd (stub base cdc ctx srv opNum w2)) =
        server_state (snd (stub base cdc ctx srv opNum w))"
    unfolding eq by (intro allI impI, elim conjE, rule decode_and_call_same)
  ultimately show ?thesis
    by blast
qed

theorem reader_and_handler_effects_only_witness:
  "(VDiskProviderServerHandle, Some 3, {3..7}) \<in> set stubs
   \<and> (5::int) \<in> own (Some 3)
   \<and> reader ((example_world [4])\<lparr>events := [Unmarshal ''QueryVDisks'']\<rparr>) =
       reader (example_world [4])
   \<and> server_state ((example_world [4])\<lparr>events := [Unmarshal ''QueryVDisks'']\<rparr>) =
       server_state (example_world [4])
   \<and> fst (VDiskProviderServerHandle example_base example_codec () example_server 5
         ((example_world [4])\<lparr>events := [Unmarshal ''QueryVDisks'']\<rparr>)) =
       fst (VDiskProviderServerHandle example_base example_codec () example_server 5
         (example_world [4]))
   \<and> world.more (snd (VDiskProviderServerHandle example_base example_codec () example_server 5
         (example_world [4]))) = ()"
proof -
  have "(5::int) \<in> own (Some 3)"
    by simp
  note e = reader_and_handler_effects_only [OF stubs_mem(9) this, of example_base example_codec "()"
      example_server "example_world [4]"]
  let ?w2 = "(example_world [4])\<lparr>events := [Unmarshal ''QueryVDisks'']\<rparr>"
  have "reader ?w2 = reader (example_world [4]) \<and> server_state ?w2 = server_state (example_world [4])"
    by simp
  with e have "fst (VDiskProviderServerHandle example_base example_codec () example_server 5 ?w2) =
      fst (VDiskProviderServerHandle example_base example_codec () example_server 5
        (example_world [4]))"
    by blast
  moreover from e have "world.more (snd (VDiskProviderServerHandle example_base example_codec ()
      example_server 5 (example_world [4]))) = ()"
    by simp
  ultimately show ?thesis
    by (simp add: stubs_mem)
qed

section \<open>Derived interfaces\<close>

text \<open>
  C8. A stub of a derived interface passes every operation number below the first one it
  owns to the stub of its base interface, with the same context, implementation, number
  and reader, and returns what that returns: below 3 to \<^verbatim>\<open>iunknown.UnknownServerHandle\<close>
  for the interfaces derived from IUnknown, below 18 to
  \<^verbatim>\<open>ifsrmfilescreenbase.FileScreenBaseServerHandle\<close> for IFsrmFileScreenTemplate and
  below 9 to \<^verbatim>\<open>idatafactory2.DataFactory2ServerHandle\<close> for IDataFactory3. The two
  ranges do not overlap: every case of the derived switch is at or above the bound, and at
  or above the bound the result does not depend on the base stub at all.
\<close>

theorem base_delegation:
  "(opNum < 3 \<longrightarrow>
      ServiceSANServerHandle UnknownServerHandle cdc ctx srv opNum w =
        UnknownServerHandle ctx srv opNum w)
   \<and> (opNum < 3 \<longrightarrow>
      AppHostPropertyCollectionServerHandle UnknownServerHandle cdc ctx srv opNum w =
        UnknownServerHandle ctx srv opNum w)
   \<and> (opNum < 3 \<longrightarrow>
      AppHostPathMapperServerHandle UnknownServerHandle cdc ctx srv opNum w =
        UnknownServerHandle ctx srv opNum w)
   \<and> (opNum < 3 \<longrightarrow>
      AppHostElementCollectionServerHandle UnknownServerHandle cdc ctx srv opNum w =
        UnknownServerHandle ctx srv opNum w)
   \<and> (opNum < 3 \<longrightarrow>
      WAMAdminServerHandle UnknownServerHandle cdc ctx srv opNum w =
        UnknownServerHandle ctx srv opNum w)
   \<and> (opNum < 3 \<longrightarrow>
      VDiskProviderServerHandle UnknownServerHandle cdc ctx srv opNum w =
        UnknownServerHandle ctx srv opNum w)
   \<and> (opNum < 3 \<longrightarrow>
      CatalogUtils2ServerHandle UnknownServerHandle cdc ctx srv opNum w =
        UnknownServerHandle ctx srv opNum w)
   \<and> (opNum < 18 \<longrightarrow>
      FileScreenTemplateServerHandle FileScreenBaseServerHandle cdc ctx srv opNum w =
        FileScreenBaseServerHandle ctx srv opNum w)
   \<and> (opNum < 9 \<longrightarrow>
      DataFactory3ServerHandle DataFactory2ServerHandle cdc ctx srv opNum w =
        DataFactory2ServerHandle ctx srv opNum w)
   \<and> (\<forall>(stub, first, cases) \<in> set (stubs :: ('ctx, 'rd, 'st, 'req, 'resp, 'op, 'e, 'z) entry list).
        \<forall>b. first = Some b \<longrightarrow>
          (\<forall>k\<in>cases. b \<le> k) \<and>
          (\<forall>opNum base cdc ctx srv w. opNum < b \<longrightarrow>
             stub base cdc ctx srv opNum w = base ctx srv opNum w) \<and>
          (\<forall>opNum base base' cdc ctx srv w. b \<le> opNum \<longrightarrow>
             stub base cdc ctx srv opNum w = stub base' cdc ctx srv opNum w))"
proof (intro conjI ballI)
  fix x :: "('ctx, 'rd, 'st, 'req, 'resp, 'op, 'e, 'z) entry"
  assume x: "x \<in> set stubs"
  obtain stub first cases where eq: "x = (stub, first, cases)"
    by (cases x)
  with x have mem: "(stub, first, cases) \<in> set stubs"
    by simp
  have "(\<forall>k\<in>cases. b \<le> k) \<and>
        (\<forall>opNum base cdc ctx srv w. opNum < b \<longrightarrow>
           stub base cdc ctx srv opNum w = base ctx srv opNum w) \<and>
        (\<forall>opNum base base' cdc ctx srv w. b \<le> opNum \<longrightarrow>
           stub base cdc ctx srv opNum w = stub base' cdc ctx srv opNum w)"
    if b: "first = Some b" for b
  proof (intro conjI ballI allI impI)
    fix k
    assume "k \<in> cases"
    with stubs_cases_own [OF mem] b show "b \<le> k"
      by auto
  next
    fix opNum base cdc ctx srv w
    assume "opNum < b"
    with mem b show "stub base cdc ctx srv opNum w = base ctx srv opNum w"
      by (rule stubs_base)
  next
    fix opNum base base' cdc ctx srv w
    assume own: "b \<le> opNum"
    show "stub base cdc ctx srv opNum w = stub base' cdc ctx srv opNum w"
    proof (cases "opNum \<in> cases")
      case True
      with mem obtain m where "\<forall>base. serves (stub base) opNum m"
        using stubs_serves by blast
      then show ?thesis
        by (simp add: serves_def)
    next
      case False
      with mem own b show ?thesis
        by (simp add: stubs_other)
    qed
  qed
  with eq show "case x of (stub, first, cases) \<Rightarrow>
      \<forall>b. first = Some b \<longrightarrow>
        (\<forall>k\<in>cases. b \<le> k) \<and>
        (\<forall>opNum base cdc ctx srv w. opNum < b \<longrightarrow>
           stub base cdc ctx srv opNum w = base ctx srv opNum w) \<and>
        (\<forall>opNum base base' cdc ctx srv w. b \<le> opNum \<longrightarrow>
           stub base cdc ctx srv opNum w = stub base' cdc ctx srv opNum w)"
    by simp
qed (simp_all add: stub_base)

theorem base_delegation_witness:
  "(17::int) < 18
   \<and> FileScreenTemplateServerHandle example_base example_codec () example_server 17
         (example_world [1]) =
       example_base () example_server 17 (example_world [1])
   \<and> example_base () example_server 17 (example_world [1]) =
       ((None, Some ''base''), example_world [1])"
proof -
  have "(17::int) < 18 \<longrightarrow>
      FileScreenTemplateServerHandle example_base example_codec () example_server 17
        (example_world [1]) =
      example_base () example_server 17 (example_world [1])"
    by (rule base_delegation [THEN conjunct2, THEN conjunct2, THEN conjunct2, THEN conjunct2,
          THEN conjunct2, THEN conjunct2, THEN conjunct2, THEN conjunct1])
  then show ?thesis
    by (simp add: example_base_def)
qed

section \<open>The reserved operation number of NSPI\<close>

text \<open>
  C9. \<^verbatim>\<open>NspiServerHandle\<close> has a case for operation number 15 that returns
  \<^verbatim>\<open>(nil, nil)\<close> at once: the state is the one before, so nothing was read and no
  handler ran, and no method is served there, although the numbers on both sides of it
  (14 and 16) serve a method. The outcome at 15 is the outcome at any operation number
  outside 0 to 20, so a caller cannot tell the two apart.
\<close>

theorem nspi_opnum_15:
  "NspiServerHandle cdc ctx srv 15 w = ((None, None), w)
   \<and> (\<nexists>m. serves NspiServerHandle 15 m)
   \<and> serves NspiServerHandle 14 ''ModifyLinkAttribute''
   \<and> serves NspiServerHandle 16 ''QueryColumns''
   \<and> (\<forall>opNum. opNum \<notin> {0..20} \<longrightarrow>
         NspiServerHandle cdc ctx srv opNum w = NspiServerHandle cdc ctx srv 15 w)"
proof -
  have 15: "NspiServerHandle cdc ctx srv 15 w = ((None, None), w)" for cdc ctx srv w
    by (simp add: NspiServerHandle_def)
  have "\<nexists>m. serves NspiServerHandle 15 m"
    using stubs_table(2) [OF stubs_mem(11), of 15] by simp
  moreover have "NspiServerHandle cdc ctx srv opNum w = NspiServerHandle cdc ctx srv 15 w"
    if "opNum \<notin> {0..20}" for opNum
  proof -
    from that have "opNum \<notin> {0..14} \<union> {16..20}"
      by auto
    then have "NspiServerHandle cdc ctx srv opNum w = ((None, None), w)"
      by (rule Nspi_other)
    then show ?thesis
      by (simp only: 15)
  qed
  ultimately show ?thesis
    by (simp add: 15 Nspi_cases)
qed

theorem nspi_opnum_15_witness:
  "(21::int) \<notin> {0..20}
   \<and> NspiServerHandle example_codec () example_server 21 (example_world [3]) =
       NspiServerHandle example_codec () example_server 15 (example_world [3])
   \<and> NspiServerHandle example_codec () example_server 15 (example_world [3]) =
       ((None, None), example_world [3])"
proof -
  note n = nspi_opnum_15 [of example_codec "()" example_server "example_world [3]"]
  have out: "(21::int) \<notin> {0..20}"
    by simp
  from n have "\<forall>opNum. opNum \<notin> {0..20} \<longrightarrow>
      NspiServerHandle example_codec () example_server opNum (example_world [3]) =
      NspiServerHandle example_codec () example_server 15 (example_world [3])"
    by (elim conjE)
  with out have "NspiServerHandle example_codec () example_server 21 (example_world [3]) =
      NspiServerHandle example_codec () example_server 15 (example_world [3])"
    by blast
  moreover from n have "NspiServerHandle example_codec () example_server 15 (example_world [3]) =
      ((None, None), example_world [3])"
    by (elim conjE)
  ultimately show ?thesis
    using out by (intro conjI)
qed

section \<open>Closures and registration\<close>

text \<open>
  C10. For every interface, \<^verbatim>\<open>NewXServerHandle(o)\<close> is the closure that passes its
  arguments and \<^verbatim>\<open>o\<close> to \<^verbatim>\<open>XServerHandle\<close>: applied to any context, operation number
  and reader it returns what \<^verbatim>\<open>XServerHandle(ctx, o, opNum, r)\<close> returns. And
  \<^verbatim>\<open>RegisterXServer\<close> calls \<^verbatim>\<open>conn.RegisterServer\<close> with that closure and with the
  caller's options followed by the abstract syntax option of the interface.
\<close>

theorem handle_closures:
  "(\<forall>ctx opNum w.
      NewWindowsShutdownServerHandle cdc srv ctx opNum w =
        WindowsShutdownServerHandle cdc ctx srv opNum w)
   \<and> RegisterWindowsShutdownServer rpc WindowsShutdownSyntaxV1_0 cdc conn srv opts =
      RegisterServer rpc conn (\<lambda>ctx opNum w. WindowsShutdownServerHandle cdc ctx srv opNum w)
        (opts @ [WithAbstractSyntax rpc WindowsShutdownSyntaxV1_0])
   \<and> (\<forall>ctx opNum w.
      NewServiceSANServerHandle UnknownServerHandle cdc srv ctx opNum w =
        ServiceSANServerHandle UnknownServerHandle cdc ctx srv opNum w)
   \<and> RegisterServiceSANServer rpc ServiceSANSyntaxV0_0 UnknownServerHandle cdc conn srv opts =
      RegisterServer rpc conn (\<lambda>ctx opNum w. ServiceSANServerHandle UnknownServerHandle cdc ctx srv opNum w)
        (opts @ [WithAbstractSyntax rpc ServiceSANSyntaxV0_0])
   \<and> (\<forall>ctx opNum w.
      NewAppHostPropertyCollectionServerHandle UnknownServerHandle cdc srv ctx opNum w =
        AppHostPropertyCollectionServerHandle UnknownServerHandle cdc ctx srv opNum w)
   \<and> RegisterAppHostPropertyCollectionServer rpc AppHostPropertyCollectionSyntaxV0_0 UnknownServerHandle cdc conn srv opts =
      RegisterServer rpc conn (\<lambda>ctx opNum w. AppHostPropertyCollectionServerHandle UnknownServerHandle cdc ctx srv opNum w)
        (opts @ [WithAbstractSyntax rpc AppHostPropertyCollectionSyntaxV0_0])
   \<and> (\<forall>ctx opNum w.
      NewAppHostPathMapperServerHandle UnknownServerHandle cdc srv ctx opNum w =
        AppHostPathMapperServerHandle UnknownServerHandle cdc ctx srv opNum w)
   \<and> RegisterAppHostPathMapperServer rpc AppHostPathMapperSyntaxV0_0 UnknownServerHandle cdc conn srv opts =
      RegisterServer rpc conn (\<lambda>ctx opNum w. AppHostPathMapperServerHandle UnknownServerHandle cdc ctx srv opNum w)
        (opts @ [WithAbstractSyntax rpc AppHostPathMapperSyntaxV0_0])
   \<and> (\<forall>ctx opNum w.
      NewAppHostElementCollectionServerHandle UnknownServerHandle cdc srv ctx opNum w =
        AppHostElementCollectionServerHandle UnknownServerHandle cdc ctx srv opNum w)
   \<and> RegisterAppHostElementCollectionServer rpc AppHostElementCollectionSyntaxV0_0 UnknownServerHandle cdc conn srv opts =
      RegisterServer rpc conn (\<lambda>ctx opNum w. AppHostElementCollectionServerHandle UnknownServerHandle cdc ctx srv opNum w)
        (opts @ [WithAbstractSyntax rpc AppHostElementCollectionSyntaxV0_0])
   \<and> (\<forall>ctx opNum w.
      NewWAMAdminServerHandle UnknownServerHandle cdc srv ctx opNum w =
        WAMAdminServerHandle UnknownServerHandle cdc ctx srv opNum w)
   \<and> RegisterWAMAdminServer rpc WAMAdminSyntaxV0_0 UnknownServerHandle cdc conn srv opts =
      RegisterServer rpc conn (\<lambda>ctx opNum w. WAMAdminServerHandle UnknownServerHandle cdc ctx srv opNum w)
        (opts @ [WithAbstractSyntax rpc WAMAdminSyntaxV0_0])
   \<and> (\<forall>ctx opNum w.
      NewDataFactory3ServerHandle DataFactory2ServerHandle cdc srv ctx opNum w =
        DataFactory3ServerHandle DataFactory2ServerHandle cdc ctx srv opNum w)
   \<and> RegisterDataFactory3Server rpc DataFactory3SyntaxV0_0 DataFactory2ServerHandle cdc conn srv opts =
      RegisterServer rpc conn (\<lambda>ctx opNum w. DataFactory3ServerHandle DataFactory2ServerHandle cdc ctx srv opNum w)
        (opts @ [WithAbstractSyntax rpc DataFactory3SyntaxV0_0])
   \<and> (\<forall>ctx opNum w.
      NewFileScreenTemplateServerHandle FileScreenBaseServerHandle cdc srv ctx opNum w =
        FileScreenTemplateServerHandle FileScreenBaseServerHandle cdc ctx srv opNum w)
   \<and> RegisterFileScreenTemplateServer rpc FileScreenTemplateSyntaxV0_0 FileScreenBaseServerHandle cdc conn srv opts =
      RegisterServer rpc conn (\<lambda>ctx opNum w. FileScreenTemplateServerHandle FileScreenBaseServerHandle cdc ctx srv opNum w)
        (opts @ [WithAbstractSyntax rpc FileScreenTemplateSyntaxV0_0])
   \<and> (\<forall>ctx opNum w.
      NewVDiskProviderServerHandle UnknownServerHandle cdc srv ctx opNum w =
        VDiskProviderServerHandle UnknownServerHandle cdc ctx srv opNum w)
   \<and> RegisterVDiskProviderServer rpc VDiskProviderSyntaxV0_0 UnknownServerHandle cdc conn srv opts =
      RegisterServer rpc conn (\<lambda>ctx opNum w. VDiskProviderServerHandle UnknownServerHandle cdc ctx srv opNum w)
        (opts @ [WithAbstractSyntax rpc VDiskProviderSyntaxV0_0])
   \<and> (\<forall>ctx opNum w.
      NewCatalogUtils2ServerHandle UnknownServerHandle cdc srv ctx opNum w =
        CatalogUtils2ServerHandle UnknownServerHandle cdc ctx srv opNum w)
   \<and> RegisterCatalogUtils2Server rpc CatalogUtils2SyntaxV0_0 UnknownServerHandle cdc conn srv opts =
      RegisterServer rpc conn (\<lambda>ctx opNum w. CatalogUtils2ServerHandle UnknownServerHandle cdc ctx srv opNum w)
        (opts @ [WithAbstractSyntax rpc CatalogUtils2SyntaxV0_0])
   \<and> (\<forall>ctx opNum w.
      NewNspiServerHandle cdc srv ctx opNum w =
        NspiServerHandle cdc ctx srv opNum w)
   \<and> RegisterNspiServer rpc NspiSyntaxV56_0 cdc conn srv opts =
      RegisterServer rpc conn (\<lambda>ctx opNum w. NspiServerHandle cdc ctx srv opNum w)
        (opts @ [WithAbstractSyntax rpc NspiSyntaxV56_0])
   \<and> (\<forall>ctx opNum w.
      NewDhcpsrv2ServerHandle cdc srv ctx opNum w =
        Dhcpsrv2ServerHandle cdc ctx srv opNum w)
   \<and> RegisterDhcpsrv2Server rpc Dhcpsrv2SyntaxV1_0 cdc conn srv opts =
      RegisterServer rpc conn (\<lambda>ctx opNum w. Dhcpsrv2ServerHandle cdc ctx srv opNum w)
        (opts @ [WithAbstractSyntax rpc Dhcpsrv2SyntaxV1_0])"
  by (simp add: NewWindowsShutdownServerHandle_def RegisterWindowsShutdownServer_def
    NewServiceSANServerHandle_def RegisterServiceSANServer_def
    NewAppHostPropertyCollectionServerHandle_def RegisterAppHostPropertyCollectionServer_def
    NewAppHostPathMapperServerHandle_def RegisterAppHostPathMapperServer_def
    NewAppHostElementCollectionServerHandle_def RegisterAppHostElementCollectionServer_def
    NewWAMAdminServerHandle_def RegisterWAMAdminServer_def
    NewDataFactory3ServerHandle_def RegisterDataFactory3Server_def
    NewFileScreenTemplateServerHandle_def RegisterFileScreenTemplateServer_def
    NewVDiskProviderServerHandle_def RegisterVDiskProviderServer_def
    NewCatalogUtils2ServerHandle_def RegisterCatalogUtils2Server_def
    NewNspiServerHandle_def RegisterNspiServer_def
    NewDhcpsrv2ServerHandle_def RegisterDhcpsrv2Server_def)

end
